theory Spec2Isabelle
  imports Complex_Main "HOL-Library.Sublist"
begin

section \<open>The grader of the position-classification exercise (grader.py)\<close>

text \<open>
  \<^verbatim>\<open>grade\<close> reads two tables from the working directory, \<^verbatim>\<open>sol.csv\<close> (the submission) and
  \<^verbatim>\<open>nba_player_stats.csv\<close> (the ground truth), and returns a \<^verbatim>\<open>GradingResult\<close>.
  The embedding follows the function statement by statement. What lies outside the function
  is fixed as follows.

  \<^item> Text is a list of 8-bit characters read as code points 0..255; header names and labels
    with code points above 255 are outside the model.
  \<^item> Python floats are idealised as real numbers: products, the division of the accuracy
    and the comparisons are exact.
  \<^item> The content of a file is given by what \<^verbatim>\<open>pd.read_csv\<close> makes of it: the file is absent,
    or reading it raises, or it parses to a header and rows. The header is the list of column
    names of the frame (\<^verbatim>\<open>read_csv\<close> makes them distinct). A cell is a text label or a
    missing value (an empty field, read as NaN); columns that pandas would read as numbers or
    booleans are outside the model.
  \<^item> When the data rows have one field more than the header, \<^verbatim>\<open>read_csv\<close> takes the first
    field of every row as the label of the row. The labels are integers or text, one for
    each row; other labels (floats, booleans, missing labels, several leading fields) are
    outside the model.
\<close>

subsection \<open>Text: \<^verbatim>\<open>str.lower\<close>, \<^verbatim>\<open>in\<close>, \<^verbatim>\<open>str\<close>, \<^verbatim>\<open>repr\<close>, \<^verbatim>\<open>join\<close>, \<^verbatim>\<open>format\<close>\<close>

text \<open>
  \<^verbatim>\<open>str.lower\<close> on code points 0..255: A-Z and the upper-case letters 0xC0..0xDE (without the
  multiplication sign 0xD7) move up by 32, which sets bit 5 of the code point.
\<close>

definition is_upper :: "char \<Rightarrow> bool" where
  "is_upper c =
     (let n = (of_char c :: nat)
      in (65 \<le> n \<and> n \<le> 90) \<or> (192 \<le> n \<and> n \<le> 222 \<and> n \<noteq> 215))"

fun set_bit5 :: "char \<Rightarrow> char" where
  "set_bit5 (Char b0 b1 b2 b3 b4 b5 b6 b7) = Char b0 b1 b2 b3 b4 True b6 b7"

definition lower_char :: "char \<Rightarrow> char" where
  "lower_char c = (if is_upper c then set_bit5 c else c)"

definition lower :: "string \<Rightarrow> string" where
  "lower s = map lower_char s"

text \<open>\<^verbatim>\<open>p in s\<close> on strings: \<open>p\<close> occurs in \<open>s\<close> as a contiguous substring.\<close>

fun str_in :: "string \<Rightarrow> string \<Rightarrow> bool" where
  "str_in p [] = (p = [])"
| "str_in p (c # cs) = (prefix p (c # cs) \<or> str_in p cs)"

text \<open>\<^verbatim>\<open>str(n)\<close> of an integer, in decimal.\<close>

definition digit_char :: "nat \<Rightarrow> char" where
  "digit_char d = ''0123456789abcdef'' ! (d mod 16)"

fun str_nat :: "nat \<Rightarrow> string" where
  "str_nat n =
     (if n < 10 then [digit_char n] else str_nat (n div 10) @ [digit_char (n mod 10)])"

declare str_nat.simps [simp del]

definition str_int :: "int \<Rightarrow> string" where
  "str_int i = (if i < 0 then ''-'' @ str_nat (nat (- i)) else str_nat (nat i))"

text \<open>
  \<^verbatim>\<open>repr(s)\<close> of a string: single quotes, unless the string holds a single quote and no double
  quote; the quote in use and the backslash get a backslash in front, tab, newline and
  carriage return are written as backslash and \<open>t\<close>, \<open>n\<close>, \<open>r\<close>, and every other code point that
  is not printable as backslash, \<open>x\<close> and two hexadecimal digits.
\<close>

definition printable :: "char \<Rightarrow> bool" where
  "printable c =
     (let n = (of_char c :: nat)
      in 32 \<le> n \<and> n \<noteq> 127 \<and> \<not> (128 \<le> n \<and> n \<le> 160) \<and> n \<noteq> 173)"

definition repr_char :: "char \<Rightarrow> char \<Rightarrow> string" where
  "repr_char quote c =
     (if c = quote \<or> c = CHR 0x5C then [CHR 0x5C, c]
      else if c = CHR 0x09 then [CHR 0x5C, CHR ''t'']
      else if c = CHR 0x0A then [CHR 0x5C, CHR ''n'']
      else if c = CHR 0x0D then [CHR 0x5C, CHR ''r'']
      else if \<not> printable c
        then [CHR 0x5C, CHR ''x'', digit_char (of_char c div 16), digit_char (of_char c mod 16)]
      else [c])"

definition py_repr :: "string \<Rightarrow> string" where
  "py_repr s =
     (let quote = (if CHR 0x27 \<in> set s \<and> CHR 0x22 \<notin> set s then CHR 0x22 else CHR 0x27)
      in [quote] @ concat (map (repr_char quote) s) @ [quote])"

text \<open>\<^verbatim>\<open>sep.join(parts)\<close>.\<close>

fun join :: "string \<Rightarrow> string list \<Rightarrow> string" where
  "join sep [] = []"
| "join sep [x] = x"
| "join sep (x # y # ys) = x @ sep @ join sep (y # ys)"

text \<open>\<^verbatim>\<open>str(list_of_strings)\<close>: the \<^verbatim>\<open>repr\<close> of every element, between brackets.\<close>

definition py_str_list :: "string list \<Rightarrow> string" where
  "py_str_list xs = ''['' @ join '', '' (map py_repr xs) @ '']''"

text \<open>
  \<^verbatim>\<open>f"{x:.3f}"\<close> for \<open>x \<ge> 0\<close>: three decimals, correctly rounded, an exact tie going to the
  even neighbour. Both values the grader prints this way lie in \<open>[0, 1]\<close>. The rounding is
  that of the real value; where the float of a quotient is not the quotient itself, the last
  digit printed can differ at a tie (it cannot at 0, 0.5 and 1, which are floats).
\<close>

definition round_half_even :: "real \<Rightarrow> int" where
  "round_half_even x =
     (let f = \<lfloor>x\<rfloor>; r = x - of_int f
      in if r < 1/2 then f else if r > 1/2 then f + 1 else if even f then f else f + 1)"

definition format_3f :: "real \<Rightarrow> string" where
  "format_3f x =
     (let k = nat (round_half_even (x * 1000))
      in str_nat (k div 1000) @ ''.'' @
         [digit_char (k div 100 mod 10), digit_char (k div 10 mod 10), digit_char (k mod 10)])"

text \<open>\<^verbatim>\<open>int(x)\<close> of a float truncates towards zero.\<close>

definition py_int :: "real \<Rightarrow> int" where
  "py_int x = (if 0 \<le> x then \<lfloor>x\<rfloor> else \<lceil>x\<rceil>)"

subsection \<open>Tables: the part of pandas and numpy that \<^verbatim>\<open>grade\<close> uses\<close>

text \<open>
  A cell of a text column is a label or a missing value. \<^verbatim>\<open>==\<close> on two cells, as numpy
  applies it element by element: two labels are compared as strings, and a missing value
  (NaN) is equal to nothing, itself included.
\<close>

datatype cell = Label string | NaN

fun cell_eq :: "cell \<Rightarrow> cell \<Rightarrow> bool" where
  "cell_eq (Label a) (Label b) = (a = b)"
| "cell_eq _ _ = False"

text \<open>
  A data frame: the row labels (the index, of integers or of text), the column names, and
  the rows. A row shorter than the header is filled with missing values, as \<^verbatim>\<open>read_csv\<close>
  does.
\<close>

datatype row_index = IntIndex "int list" | TextIndex "string list"

record DataFrame =
  df_index :: row_index
  df_columns :: "string list"
  df_rows :: "cell list list"

text \<open>
  A file that parses is a table: the leading field of its data rows, when they have one
  field more than the header (the integers or the text that \<^verbatim>\<open>read_csv\<close> finds there, one
  for each row), then the header, then the rows without the leading field.
\<close>

datatype leading_field = NoLeadingField | IntField "int list" | TextField "string list"

datatype csv_file =
  Absent | Unreadable string | Table leading_field "string list" "cell list list"

text \<open>
  The exceptions of the \<^verbatim>\<open>try\<close> block, with \<^verbatim>\<open>str(e)\<close>: a file that is not there, a key
  that is not a column or not a row label (\<^verbatim>\<open>str\<close> of a KeyError is the \<^verbatim>\<open>repr\<close> of the key,
  a string or an integer), a slice by an integer on an index of text, and whatever else
  \<^verbatim>\<open>read_csv\<close> raises on a file it cannot read, given by its message.
\<close>

datatype exn =
  FileNotFoundError string | KeyError string | ReadError string
  | KeyErrorInt int | TypeError string

fun exn_str :: "exn \<Rightarrow> string" where
  "exn_str (FileNotFoundError path) = ''[Errno 2] No such file or directory: '' @ py_repr path"
| "exn_str (KeyError k) = py_repr k"
| "exn_str (ReadError msg) = msg"
| "exn_str (KeyErrorInt i) = str_int i"
| "exn_str (TypeError msg) = msg"

text \<open>
  \<^verbatim>\<open>os.path.exists(path)\<close> and \<^verbatim>\<open>pd.read_csv(path)\<close>. A table without a leading field gets
  the default index \<open>0, 1, ..., n - 1\<close>; with a leading field, that field is the index.
\<close>

fun exists_file :: "csv_file \<Rightarrow> bool" where
  "exists_file Absent = False"
| "exists_file _ = True"

fun table_index :: "leading_field \<Rightarrow> nat \<Rightarrow> row_index" where
  "table_index NoLeadingField n = IntIndex (map int [0..<n])"
| "table_index (IntField labels) n = IntIndex labels"
| "table_index (TextField labels) n = TextIndex labels"

fun read_csv :: "string \<Rightarrow> csv_file \<Rightarrow> exn + DataFrame" where
  "read_csv path Absent = Inl (FileNotFoundError path)"
| "read_csv path (Unreadable msg) = Inl (ReadError msg)"
| "read_csv path (Table leading header rows) =
     Inr \<lparr>df_index = table_index leading (length rows), df_columns = header,
          df_rows = rows\<rparr>"

text \<open>\<^verbatim>\<open>len(df)\<close> is the number of rows.\<close>

definition len_df :: "DataFrame \<Rightarrow> nat" where
  "len_df df = length (df_rows df)"

fun column_position :: "string \<Rightarrow> string list \<Rightarrow> nat option" where
  "column_position name [] = None"
| "column_position name (c # cs) =
     (if c = name then Some 0 else map_option Suc (column_position name cs))"

definition cell_at :: "nat \<Rightarrow> cell list \<Rightarrow> cell" where
  "cell_at j row = (if j < length row then row ! j else NaN)"

text \<open>\<^verbatim>\<open>df[name].values\<close>: the values of one column, top to bottom.\<close>

definition column_values :: "DataFrame \<Rightarrow> string \<Rightarrow> exn + cell list" where
  "column_values df name =
     (case column_position name (df_columns df) of
        None \<Rightarrow> Inl (KeyError name)
      | Some j \<Rightarrow> Inr (map (cell_at j) (df_rows df)))"

text \<open>
  \<^verbatim>\<open>df.iloc[start:]\<close> selects by position; the rows keep their labels. \<^verbatim>\<open>start\<close> follows
  Python's slice rules (a negative start counts from the end, and the start is clipped).
\<close>

definition slice_start :: "int \<Rightarrow> nat \<Rightarrow> nat" where
  "slice_start start n = (if start < 0 then nat (max 0 (int n + start)) else min (nat start) n)"

fun drop_index :: "nat \<Rightarrow> row_index \<Rightarrow> row_index" where
  "drop_index k (IntIndex labels) = IntIndex (drop k labels)"
| "drop_index k (TextIndex labels) = TextIndex (drop k labels)"

definition iloc_from :: "int \<Rightarrow> DataFrame \<Rightarrow> DataFrame" where
  "iloc_from start df =
     (let k = slice_start start (length (df_rows df))
      in df\<lparr>df_index := drop_index k (df_index df), df_rows := drop k (df_rows df)\<rparr>)"

text \<open>
  The position where a slice by label starts on an index of integers
  (\<^verbatim>\<open>Index.get_slice_bound(label, "left")\<close>). If the label occurs, the slice starts at its
  first occurrence, provided its occurrences are next to each other; if they are not, a
  KeyError is raised. If the label does not occur, an increasing index is searched for the
  first label that is not smaller, a decreasing index for the first label that is not larger,
  and on any other index the KeyError of the label is raised.
\<close>

definition get_slice_bound_left :: "int \<Rightarrow> int list \<Rightarrow> exn + nat" where
  "get_slice_bound_left label labels =
     (if label \<in> set labels then
        (let p = length (takeWhile (\<lambda>l. l \<noteq> label) labels);
             c = count_list labels label
         in if take c (drop p labels) = replicate c label then Inr p
            else Inl (KeyError (''Cannot get left slice bound for non-unique label: '' @
                                str_int label)))
      else if sorted labels then Inr (length (takeWhile (\<lambda>l. l < label) labels))
      else if sorted (rev labels) then Inr (length (takeWhile (\<lambda>l. label < l) labels))
      else Inl (KeyErrorInt label))"

text \<open>
  \<^verbatim>\<open>df.loc[first:, name].values\<close> with an integer \<^verbatim>\<open>first\<close> selects the column by name and
  the rows by LABEL, not by position: the column is looked up first; on an index of integers
  the rows from the slice bound of \<^verbatim>\<open>first\<close> are kept, whether or not the label \<^verbatim>\<open>first\<close>
  itself occurs; on an index of text the slice raises a TypeError.
\<close>

definition slice_type_error :: "int \<Rightarrow> exn" where
  "slice_type_error first =
     TypeError (''cannot do slice indexing on Index with these indexers ['' @
                str_int first @ ''] of type int'')"

definition loc_from :: "int \<Rightarrow> string \<Rightarrow> DataFrame \<Rightarrow> exn + cell list" where
  "loc_from first name df =
     (case column_position name (df_columns df) of
        None \<Rightarrow> Inl (KeyError name)
      | Some j \<Rightarrow>
          (case df_index df of
             TextIndex labels \<Rightarrow> Inl (slice_type_error first)
           | IntIndex labels \<Rightarrow>
               (case get_slice_bound_left first labels of
                  Inl e \<Rightarrow> Inl e
                | Inr k \<Rightarrow> Inr (map (cell_at j) (drop k (df_rows df))))))"

text \<open>
  \<^verbatim>\<open>np.array_equal(a, b)\<close>: the same shape and \<^verbatim>\<open>==\<close> at every position.
  \<^verbatim>\<open>np.sum(a == b)\<close> on arrays of one length: the number of positions where \<^verbatim>\<open>==\<close> holds.
\<close>

definition array_equal :: "cell list \<Rightarrow> cell list \<Rightarrow> bool" where
  "array_equal a b = (length a = length b \<and> list_all (\<lambda>(x, y). cell_eq x y) (zip a b))"

definition count_equal :: "cell list \<Rightarrow> cell list \<Rightarrow> nat" where
  "count_equal a b = length (filter (\<lambda>(x, y). cell_eq x y) (zip a b))"

subsection \<open>The result\<close>

datatype detail = DStr string | DStrList "string list" | DFloat real | DInt int

text \<open>
  \<^verbatim>\<open>class GradingResult(BaseModel)\<close>. The dictionaries are association lists in insertion
  order; every key is inserted once.
\<close>

record GradingResult =
  score :: real
  subscores :: "(string \<times> real) list"
  weights :: "(string \<times> real) list"
  feedback :: "string option"
  details :: "(string \<times> detail) list option"

text \<open>\<^verbatim>\<open>d[key]\<close> on a dictionary of floats whose keys include \<open>key\<close>.\<close>

definition dict_get :: "(string \<times> real) list \<Rightarrow> string \<Rightarrow> real" where
  "dict_get d key = (case map_of d key of Some v \<Rightarrow> v | None \<Rightarrow> 0)"

subsection \<open>Lines 45-54: the two required columns\<close>

text \<open>
  \<^verbatim>\<open>
  actual_col = None
  predicted_col = None
  for col in predictions_df.columns:
      col_lower = col.lower()
      if 'actual' in col_lower:
          actual_col = col
      elif 'predicted' in col_lower:
          predicted_col = col
  \<close>
  The loop runs over every column and has no \<^verbatim>\<open>break\<close>; the pair of the two variables is
  the state it updates.
\<close>

fun resolve_columns ::
  "string list \<Rightarrow> string option \<times> string option \<Rightarrow> string option \<times> string option" where
  "resolve_columns [] (actual_col, predicted_col) = (actual_col, predicted_col)"
| "resolve_columns (col # cols) (actual_col, predicted_col) =
     (let col_lower = lower col
      in if str_in ''actual'' col_lower then resolve_columns cols (Some col, predicted_col)
         else if str_in ''predicted'' col_lower then resolve_columns cols (actual_col, Some col)
         else resolve_columns cols (actual_col, predicted_col))"

subsection \<open>Lines 67-76: the size of the test set\<close>

definition size_tolerance :: int where
  "size_tolerance = 2"

definition expected_test_size :: "nat \<Rightarrow> int" where
  "expected_test_size total_rows = py_int (0.2 * real total_rows)"

definition size_score :: "nat \<Rightarrow> nat \<Rightarrow> real" where
  "size_score actual_test_size total_rows =
     (if \<bar>int actual_test_size - expected_test_size total_rows\<bar> \<le> size_tolerance
      then 1.0 else 0.5)"

definition size_feedback :: "nat \<Rightarrow> nat \<Rightarrow> string list" where
  "size_feedback actual_test_size total_rows =
     (if size_score actual_test_size total_rows < 1.0
      then [''Test set size: '' @ str_nat actual_test_size @ '', expected: ~'' @
            str_int (expected_test_size total_rows)]
      else [])"

subsection \<open>Lines 78-82: the expected labels\<close>

text \<open>
  \<^verbatim>\<open>
  test_start_idx = int(0.8 * total_rows)
  expected_test_data = nba_data.iloc[test_start_idx:].copy()
  expected_actuals = expected_test_data.loc[1:,'Pos'].values
  \<close>
\<close>

definition test_start_idx :: "nat \<Rightarrow> int" where
  "test_start_idx total_rows = py_int (0.8 * real total_rows)"

definition expected_actuals :: "DataFrame \<Rightarrow> exn + cell list" where
  "expected_actuals nba_data =
     (let total_rows = len_df nba_data;
          expected_test_data = iloc_from (test_start_idx total_rows) nba_data
      in loc_from 1 ''Pos'' expected_test_data)"

subsection \<open>Lines 88-97: the split\<close>

definition actual_match_score :: "cell list \<Rightarrow> cell list \<Rightarrow> real" where
  "actual_match_score actual_values expected =
     (if length actual_values = length expected
      then (if array_equal actual_values expected then 1.0 else 0.0)
      else 0.0)"

definition split_feedback :: "cell list \<Rightarrow> cell list \<Rightarrow> string list" where
  "split_feedback actual_values expected =
     (if actual_match_score actual_values expected = 0.0
      then [''The 'actual' values don't match the expected test set (last 20% of rows)'']
      else [])"

subsection \<open>Lines 99-117: the accuracy\<close>

definition accuracy_computed :: "cell list \<Rightarrow> cell list \<Rightarrow> bool" where
  "accuracy_computed actual_values predicted_values =
     (length actual_values = length predicted_values \<and> length actual_values > 0)"

definition accuracy :: "cell list \<Rightarrow> cell list \<Rightarrow> real" where
  "accuracy actual_values predicted_values =
     real (count_equal actual_values predicted_values) / real (length actual_values)"

definition accuracy_score :: "cell list \<Rightarrow> cell list \<Rightarrow> real" where
  "accuracy_score actual_values predicted_values =
     (if accuracy_computed actual_values predicted_values
      then accuracy actual_values predicted_values else 0.0)"

definition accuracy_details :: "cell list \<Rightarrow> cell list \<Rightarrow> (string \<times> detail) list" where
  "accuracy_details actual_values predicted_values =
     (if accuracy_computed actual_values predicted_values
      then [(''accuracy'', DFloat (accuracy actual_values predicted_values)),
            (''classification_error'', DFloat (1.0 - accuracy actual_values predicted_values)),
            (''correct_predictions'', DInt (int (count_equal actual_values predicted_values))),
            (''total_predictions'', DInt (int (length actual_values)))]
      else [])"

definition accuracy_feedback :: "cell list \<Rightarrow> cell list \<Rightarrow> string list" where
  "accuracy_feedback actual_values predicted_values =
     (if accuracy_computed actual_values predicted_values
      then [''Classification accuracy: '' @ format_3f (accuracy actual_values predicted_values),
            ''Classification error: '' @
              format_3f (1.0 - accuracy actual_values predicted_values)]
      else [''Could not calculate accuracy due to mismatched array lengths''])"

subsection \<open>Lines 119-142: the final score and the result\<close>

definition weights_table :: "(string \<times> real) list" where
  "weights_table =
     [(''test_size_correct'', 0.2), (''correct_test_split'', 0.3),
      (''classification_accuracy'', 0.5)]"

text \<open>\<^verbatim>\<open>sum(subscores[key] * weights[key] for key in weights.keys())\<close>\<close>

definition weighted_sum :: "(string \<times> real) list \<Rightarrow> (string \<times> real) list \<Rightarrow> real" where
  "weighted_sum subs ws = sum_list (map (\<lambda>key. dict_get subs key * dict_get ws key) (map fst ws))"

text \<open>
  \<^verbatim>\<open>
  if all(score >= 0.95 for score in subscores.values()):
      final_score = max(final_score, accuracy_score)
  \<close>
\<close>

definition final_score :: "(string \<times> real) list \<Rightarrow> real \<Rightarrow> real" where
  "final_score subs acc =
     (let weighted = weighted_sum subs weights_table
      in if list_all (\<lambda>s. s \<ge> 0.95) (map snd subs) then max weighted acc else weighted)"

text \<open>
  The statements of lines 67-142 that neither read a file nor print, in the order of the
  source: \<open>total_rows\<close> and \<open>actual_test_size\<close> are the two row counts, and the three
  sequences are \<open>expected_actuals\<close>, \<open>actual_values\<close> and \<open>predicted_values\<close>.
\<close>

definition score_submission ::
  "nat \<Rightarrow> nat \<Rightarrow> cell list \<Rightarrow> cell list \<Rightarrow> cell list \<Rightarrow> GradingResult" where
  "score_submission total_rows actual_test_size expected actual_values predicted_values =
     (let subs =
            [(''test_size_correct'', size_score actual_test_size total_rows),
             (''correct_test_split'', actual_match_score actual_values expected),
             (''classification_accuracy'', accuracy_score actual_values predicted_values)];
          feedback_parts =
            size_feedback actual_test_size total_rows @
            split_feedback actual_values expected @
            accuracy_feedback actual_values predicted_values;
          dets =
            accuracy_details actual_values predicted_values @
            [(''test_set_size'', DInt (int actual_test_size)),
             (''expected_test_size'', DInt (expected_test_size total_rows))]
      in \<lparr>score = final_score subs (accuracy_score actual_values predicted_values),
          subscores = subs,
          weights = weights_table,
          feedback = Some (if feedback_parts \<noteq> [] then join '' | '' feedback_parts
                           else ''Task completed successfully!''),
          details = Some dets\<rparr>)"

subsection \<open>Lines 32-39, 56-61 and 144-149: the three results without scores\<close>

definition missing_file_result :: GradingResult where
  "missing_file_result =
     \<lparr>score = 0.0, subscores = [], weights = [],
      feedback = Some ''sol.csv file not found. Please save your predictions to sol.csv'',
      details = Some [(''error'', DStr ''missing_predictions_file'')]\<rparr>"

definition missing_columns_result :: "string list \<Rightarrow> GradingResult" where
  "missing_columns_result columns =
     \<lparr>score = 0.0, subscores = [], weights = [],
      feedback = Some (''sol.csv must contain columns with 'actual' and 'predicted' in their names. Found columns: '' @ py_str_list columns),
      details = Some [(''error'', DStr ''missing_required_columns''),
                      (''columns'', DStrList columns)]\<rparr>"

definition processing_error_result :: "exn \<Rightarrow> GradingResult" where
  "processing_error_result e =
     \<lparr>score = 0.0, subscores = [], weights = [],
      feedback = Some (''Error processing predictions: '' @ exn_str e),
      details = Some [(''error'', DStr ''processing_error''),
                      (''exception'', DStr (exn_str e))]\<rparr>"

subsection \<open>The function \<^verbatim>\<open>grade\<close>\<close>

text \<open>
  The working directory as \<^verbatim>\<open>grade\<close> sees it: the two files it reads and the lines
  written to standard output so far (lines 80 and 87 print).
\<close>

record world =
  sol_csv :: csv_file
  nba_player_stats_csv :: csv_file
  stdout :: "string list"

definition predictions_path :: string where
  "predictions_path = ''sol.csv''"

text \<open>
  The body of the \<^verbatim>\<open>try\<close> (lines 42-142): the lines printed until it returns or raises, and
  the result it returns (\<open>Inr\<close>) or the exception it raises (\<open>Inl\<close>).
\<close>

definition grade_try :: "world \<Rightarrow> string list \<times> (exn + GradingResult)" where
  "grade_try w =
     (case read_csv predictions_path (sol_csv w) of
        Inl e \<Rightarrow> ([], Inl e)
      | Inr predictions_df \<Rightarrow>
     (case resolve_columns (df_columns predictions_df) (None, None) of
        (None, _) \<Rightarrow> ([], Inr (missing_columns_result (df_columns predictions_df)))
      | (Some actual_col, None) \<Rightarrow>
          ([], Inr (missing_columns_result (df_columns predictions_df)))
      | (Some actual_col, Some predicted_col) \<Rightarrow>
     (case read_csv ''nba_player_stats.csv'' (nba_player_stats_csv w) of
        Inl e \<Rightarrow> ([], Inl e)
      | Inr nba_data \<Rightarrow>
     (let total_rows = len_df nba_data;
          actual_test_size = len_df predictions_df;
          out1 = [str_int (test_start_idx total_rows)]
      in
     (case expected_actuals nba_data of
        Inl e \<Rightarrow> (out1, Inl e)
      | Inr expected \<Rightarrow>
     (case column_values predictions_df actual_col of
        Inl e \<Rightarrow> (out1, Inl e)
      | Inr actual_values \<Rightarrow>
     (case column_values predictions_df predicted_col of
        Inl e \<Rightarrow> (out1, Inl e)
      | Inr predicted_values \<Rightarrow>
          (out1 @ [str_nat (length actual_values) @ '' '' @ str_nat (length expected)],
           Inr (score_submission total_rows actual_test_size expected
                  actual_values predicted_values)))))))))"

text \<open>
  \<^verbatim>\<open>grade(transcript)\<close>: the result, and the world it leaves. The transcript is not read.
\<close>

definition grade :: "string \<Rightarrow> world \<Rightarrow> GradingResult \<times> world" where
  "grade transcript w =
     (if \<not> exists_file (sol_csv w) then (missing_file_result, w)
      else
        (case grade_try w of
           (out, Inr result) \<Rightarrow> (result, w\<lparr>stdout := stdout w @ out\<rparr>)
         | (out, Inl e) \<Rightarrow> (processing_error_result e, w\<lparr>stdout := stdout w @ out\<rparr>)))"

section \<open>Notions used in the statements\<close>

text \<open>
  What the loop of lines 49-54 tests on a header name, and the last element of a list that
  satisfies a test.
\<close>

definition is_actual_header :: "string \<Rightarrow> bool" where
  "is_actual_header col = str_in ''actual'' (lower col)"

definition is_predicted_header :: "string \<Rightarrow> bool" where
  "is_predicted_header col = str_in ''predicted'' (lower col)"

definition is_predicted_only :: "string \<Rightarrow> bool" where
  "is_predicted_only col = (\<not> is_actual_header col \<and> is_predicted_header col)"

definition last_match :: "(string \<Rightarrow> bool) \<Rightarrow> string list \<Rightarrow> string option" where
  "last_match P cols = find P (rev cols)"

text \<open>The position of the first row that enters the expected labels.\<close>

definition held_out_start :: "nat \<Rightarrow> nat" where
  "held_out_start total_rows = max 1 (4 * total_rows div 5)"

text \<open>
  The expected labels as the specification words them: the \<^verbatim>\<open>Pos\<close> labels of the rows from
  position \<open>floor (0.8 * total_rows)\<close> to the end, without the first of them.
\<close>

definition claimed_expected_held_out :: "DataFrame \<Rightarrow> exn + cell list" where
  "claimed_expected_held_out nba_data =
     (case column_values nba_data ''Pos'' of
        Inl e \<Rightarrow> Inl e
      | Inr pos \<Rightarrow> Inr (tl (drop (nat \<lfloor>0.8 * real (len_df nba_data)\<rfloor>) pos)))"

text \<open>
  The weighted sum as the specification words it:
  \<open>0.2 * test_size_correct + 0.3 * correct_test_split + 0.5 * classification_accuracy\<close>,
  read off the sub-scores of a result.
\<close>

definition plain_weighted_sum :: "GradingResult \<Rightarrow> real" where
  "plain_weighted_sum r =
     0.2 * dict_get (subscores r) ''test_size_correct'' +
     0.3 * dict_get (subscores r) ''correct_test_split'' +
     0.5 * dict_get (subscores r) ''classification_accuracy''"

subsection \<open>A ground truth of ten players and submissions for it\<close>

definition example_nba_header :: "string list" where
  "example_nba_header = [''Player'', ''Pos'']"

definition example_nba_rows :: "cell list list" where
  "example_nba_rows =
     [ [Label ''p0'', Label ''PG''], [Label ''p1'', Label ''SG''], [Label ''p2'', Label ''SF''],
      [Label ''p3'', Label ''PF''], [Label ''p4'', Label ''C''], [Label ''p5'', Label ''PG''],
      [Label ''p6'', Label ''SG''], [Label ''p7'', Label ''SF''], [Label ''p8'', Label ''PF''],
      [Label ''p9'', Label ''C'']]"

definition example_nba_file :: csv_file where
  "example_nba_file = Table NoLeadingField example_nba_header example_nba_rows"

definition example_nba_data :: DataFrame where
  "example_nba_data =
     \<lparr>df_index = IntIndex [0, 1, 2, 3, 4, 5, 6, 7, 8, 9],
      df_columns = example_nba_header,
      df_rows = example_nba_rows\<rparr>"

text \<open>
  Submissions for the ten-player ground truth, whose held-out rows are the last two (labels
  PF and C): one that predicts both labels, one that predicts the first only, and one for
  a ground truth whose last player has no position, given back as it is.
\<close>

definition example_sol_header :: "string list" where
  "example_sol_header = [''player'', ''actual_position'', ''predicted_position'']"

definition example_perfect_world :: world where
  "example_perfect_world =
     \<lparr>sol_csv = Table NoLeadingField example_sol_header
                  [ [Label ''p8'', Label ''PF'', Label ''PF''],
                   [Label ''p9'', Label ''C'', Label ''C'']],
      nba_player_stats_csv = example_nba_file,
      stdout = []\<rparr>"

definition example_half_world :: world where
  "example_half_world =
     \<lparr>sol_csv = Table NoLeadingField example_sol_header
                  [ [Label ''p8'', Label ''PF'', Label ''PF''],
                   [Label ''p9'', Label ''C'', Label ''SG'']],
      nba_player_stats_csv = example_nba_file,
      stdout = []\<rparr>"

definition example_nan_world :: world where
  "example_nan_world =
     \<lparr>sol_csv = Table NoLeadingField example_sol_header
                  [ [Label ''p8'', Label ''PF'', Label ''PF''],
                   [Label ''p9'', NaN, Label ''C'']],
      nba_player_stats_csv =
        Table NoLeadingField example_nba_header (take 9 example_nba_rows @ [ [Label ''p9'', NaN]]),
      stdout = []\<rparr>"

text \<open>
  Two headers: one with two names that contain \<^verbatim>\<open>actual\<close>, and one (in a submission without
  rows) with no name that contains \<^verbatim>\<open>actual\<close> or \<^verbatim>\<open>predicted\<close>.
\<close>

definition example_ambiguous_header :: "string list" where
  "example_ambiguous_header =
     [''player'', ''actual_position'', ''predicted_position'', ''actual_team'']"

definition example_unmatched_world :: world where
  "example_unmatched_world =
     \<lparr>sol_csv = Table NoLeadingField [''name'', ''guess'', ''truth''] [],
      nba_player_stats_csv = example_nba_file, stdout = []\<rparr>"

text \<open>
  Working directories without \<^verbatim>\<open>sol.csv\<close>, with a ground truth that has no \<^verbatim>\<open>Pos\<close>
  column, with a \<^verbatim>\<open>sol.csv\<close> that \<^verbatim>\<open>read_csv\<close> cannot read, and without the ground truth.
\<close>

definition example_no_file_world :: world where
  "example_no_file_world =
     \<lparr>sol_csv = Absent, nba_player_stats_csv = example_nba_file, stdout = []\<rparr>"

definition example_no_pos_world :: world where
  "example_no_pos_world =
     \<lparr>sol_csv = Table NoLeadingField example_sol_header [],
      nba_player_stats_csv = Table NoLeadingField [''Player'', ''Team''] [],
      stdout = []\<rparr>"

definition example_unreadable_world :: world where
  "example_unreadable_world =
     \<lparr>sol_csv = Unreadable ''No columns to parse from file'',
      nba_player_stats_csv = example_nba_file, stdout = []\<rparr>"

definition example_no_truth_world :: world where
  "example_no_truth_world =
     \<lparr>sol_csv = Table NoLeadingField example_sol_header [], nba_player_stats_csv = Absent, stdout = []\<rparr>"


text \<open>
  Leading fields for the ten rows of the ground truth: the same integer in front of every
  row, and a text in front of every row.
\<close>

definition example_zero_labels :: "int list" where
  "example_zero_labels = [0, 0, 0, 0, 0, 0, 0, 0, 0, 0]"

definition example_text_labels :: "string list" where
  "example_text_labels =
     [''a'', ''b'', ''c'', ''d'', ''e'', ''f'', ''g'', ''h'', ''i'', ''j'']"

text \<open>A working directory whose ground truth has a text in front of every row.\<close>

definition example_text_label_world :: world where
  "example_text_label_world =
     \<lparr>sol_csv = Table NoLeadingField example_sol_header [],
      nba_player_stats_csv = Table (TextField example_text_labels) example_nba_header
                               example_nba_rows,
      stdout = []\<rparr>"
section \<open>Auxiliary facts\<close>

subsection \<open>The two sizes in integer arithmetic\<close>

lemma expected_test_size_div: "expected_test_size n = int (n div 5)"
proof -
  have "0.2 * real n = real n / real 5" by simp
  then have "\<lfloor>0.2 * real n\<rfloor> = int (n div 5)" by (simp only: floor_divide_of_nat_eq)
  then show ?thesis by (simp add: expected_test_size_def py_int_def)
qed

lemma test_start_idx_div: "test_start_idx n = int (4 * n div 5)"
proof -
  have "0.8 * real n = real (4 * n) / real 5" by simp
  then have "\<lfloor>0.8 * real n\<rfloor> = int (4 * n div 5)" by (simp only: floor_divide_of_nat_eq)
  then show ?thesis by (simp add: test_start_idx_def py_int_def)
qed

lemma slice_start_test_start_idx: "slice_start (test_start_idx n) n = 4 * n div 5"
  by (simp add: slice_start_def test_start_idx_div)

subsection \<open>The column loop keeps the last match\<close>

lemma find_snoc:
  "find P (xs @ [x]) =
     (case find P xs of Some y \<Rightarrow> Some y | None \<Rightarrow> if P x then Some x else None)"
  by (induction xs) auto

lemma find_Some_mem: "find P xs = Some c \<Longrightarrow> c \<in> set xs \<and> P c"
  by (induction xs) (auto split: if_splits)

lemma last_match_Cons:
  "last_match P (c # cs) =
     (case last_match P cs of Some y \<Rightarrow> Some y | None \<Rightarrow> if P c then Some c else None)"
  by (simp add: last_match_def find_snoc)

lemma last_match_Some: "last_match P cols = Some c \<Longrightarrow> c \<in> set cols \<and> P c"
  using find_Some_mem [of P "rev cols" c] by (simp add: last_match_def)

lemma last_match_None: "last_match P cols = None \<longleftrightarrow> (\<forall>c\<in>set cols. \<not> P c)"
  by (auto simp: last_match_def find_None_iff)

lemma resolve_columns_acc:
  "resolve_columns cols (a, p) =
     (case last_match is_actual_header cols of Some c \<Rightarrow> Some c | None \<Rightarrow> a,
      case last_match is_predicted_only cols of Some c \<Rightarrow> Some c | None \<Rightarrow> p)"
proof (induction cols arbitrary: a p)
  case Nil
  show ?case by (simp add: last_match_def)
next
  case (Cons c cs)
  show ?case
    by (simp add: Cons.IH last_match_Cons Let_def is_actual_header_def is_predicted_only_def
        is_predicted_header_def split: option.splits)
qed

lemma resolve_columns_last:
  "resolve_columns cols (None, None) =
     (last_match is_actual_header cols, last_match is_predicted_only cols)"
  by (simp add: resolve_columns_acc split: option.splits)

lemma column_position_mem: "c \<in> set cols \<Longrightarrow> \<exists>j. column_position c cols = Some j"
  by (induction cols) auto

lemma resolve_columns_found:
  assumes "resolve_columns header (None, None) = (Some actual_col, Some predicted_col)"
  shows "\<exists>ja jp. column_position actual_col header = Some ja \<and>
                 column_position predicted_col header = Some jp"
proof -
  from assms have "last_match is_actual_header header = Some actual_col"
    and "last_match is_predicted_only header = Some predicted_col"
    by (simp_all add: resolve_columns_last)
  then have "actual_col \<in> set header" and "predicted_col \<in> set header"
    by (auto dest: last_match_Some)
  then show ?thesis by (meson column_position_mem)
qed

subsection \<open>Selecting rows by label after selecting them by position\<close>

lemma takeWhile_neq_sorted:
  "sorted labels \<Longrightarrow> label \<in> set labels \<Longrightarrow>
   takeWhile (\<lambda>l. l \<noteq> label) labels = takeWhile (\<lambda>l. l < label) labels"
  for label :: int
proof (induction labels)
  case Nil
  then show ?case by simp
next
  case (Cons x xs)
  show ?case
  proof (cases "x = label")
    case True
    then show ?thesis by simp
  next
    case False
    with Cons.prems have mem: "label \<in> set xs" by simp
    with Cons.prems(1) have "x \<le> label" by auto
    with False have "x < label" by simp
    moreover have "takeWhile (\<lambda>l. l \<noteq> label) xs = takeWhile (\<lambda>l. l < label) xs"
      using Cons.IH Cons.prems(1) mem by simp
    ultimately show ?thesis using False by simp
  qed
qed

lemma take_count_sorted:
  "sorted ys \<Longrightarrow> \<forall>y\<in>set ys. label \<le> y \<Longrightarrow>
   take (count_list ys label) ys = replicate (count_list ys label) label"
  for label :: int
proof (induction ys)
  case Nil
  then show ?case by simp
next
  case (Cons y ys)
  show ?case
  proof (cases "y = label")
    case True
    then show ?thesis using Cons by simp
  next
    case False
    with Cons.prems have "label < y" by auto
    with Cons.prems(1) have "label \<notin> set ys" by auto
    then show ?thesis using False by simp
  qed
qed

lemma count_list_dropWhile_less:
  "count_list (dropWhile (\<lambda>l. l < label) labels) label = count_list labels label"
  for label :: int
  by (induction labels) auto

lemma get_slice_bound_left_sorted:
  assumes "sorted labels"
  shows "get_slice_bound_left label labels
           = Inr (length (takeWhile (\<lambda>l. l < label) labels))"
proof (cases "label \<in> set labels")
  case False
  then show ?thesis using assms by (simp add: get_slice_bound_left_def)
next
  case True
  let ?p = "length (takeWhile (\<lambda>l. l < label) labels)"
  let ?c = "count_list labels label"
  have p: "length (takeWhile (\<lambda>l. l \<noteq> label) labels) = ?p"
    using takeWhile_neq_sorted [OF assms True] by simp
  have rest: "drop ?p labels = dropWhile (\<lambda>l. l < label) labels"
    by (simp add: dropWhile_eq_drop)
  have srt: "sorted (dropWhile (\<lambda>l. l < label) labels)"
    using assms by (simp add: sorted_dropWhile)
  have lower: "\<forall>y\<in>set (dropWhile (\<lambda>l. l < label) labels). label \<le> y"
  proof (cases "dropWhile (\<lambda>l. l < label) labels")
    case Nil
    show ?thesis unfolding Nil by simp
  next
    case (Cons y ys)
    then have "\<not> y < label" using hd_dropWhile [of "\<lambda>l. l < label" labels] by simp
    moreover have "\<forall>z\<in>set ys. y \<le> z" using srt Cons by simp
    ultimately show ?thesis using Cons by auto
  qed
  have "take ?c (drop ?p labels) = replicate ?c label"
    using take_count_sorted [OF srt lower] by (simp add: rest count_list_dropWhile_less)
  then show ?thesis using True by (simp add: get_slice_bound_left_def p Let_def)
qed

lemma takeWhile_default_index:
  "length (takeWhile (\<lambda>l. l < 1) (map int [k..<n])) = (if k = 0 \<and> 0 < n then 1 else 0)"
proof (cases "k < n")
  case False
  then show ?thesis by auto
next
  case True
  then have up: "[k..<n] = k # [Suc k..<n]" by (simp add: upt_conv_Cons)
  show ?thesis
  proof (cases "k = 0")
    case False
    then show ?thesis using up by simp
  next
    case k0: True
    have "takeWhile (\<lambda>l. l < 1) (map int [Suc 0..<n]) = []"
      by (cases "Suc 0 < n") (simp_all add: upt_conv_Cons)
    then show ?thesis using up k0 True by simp
  qed
qed

lemma sorted_default_index: "sorted (map int [k..<n])"
  by (simp add: sorted_map sorted_wrt_iff_nth_less)

lemma get_slice_bound_left_default:
  "get_slice_bound_left 1 (map int [k..<n]) = Inr (if k = 0 \<and> 0 < n then 1 else 0)"
  using get_slice_bound_left_sorted [OF sorted_default_index, of 1 k n]
  by (simp only: takeWhile_default_index)

lemma expected_actuals_read:
  assumes "read_csv path (Table leading header rows) = Inr nba_data"
  shows "expected_actuals nba_data =
           (case column_position ''Pos'' header of
              None \<Rightarrow> Inl (KeyError ''Pos'')
            | Some j \<Rightarrow>
                (case drop_index (4 * length rows div 5) (table_index leading (length rows)) of
                   TextIndex labels \<Rightarrow> Inl (slice_type_error 1)
                 | IntIndex labels \<Rightarrow>
                     (case get_slice_bound_left 1 labels of
                        Inl e \<Rightarrow> Inl e
                      | Inr p \<Rightarrow>
                          Inr (map (cell_at j)
                                 (drop p (drop (4 * length rows div 5) rows))))))"
proof -
  have df: "nba_data = \<lparr>df_index = table_index leading (length rows), df_columns = header,
              df_rows = rows\<rparr>"
    using assms by simp
  show ?thesis
    unfolding expected_actuals_def loc_from_def
    by (simp add: df len_df_def iloc_from_def Let_def slice_start_test_start_idx
        split: option.splits row_index.splits sum.splits)
qed

lemma expected_actuals_table:
  assumes "read_csv path (Table NoLeadingField header rows) = Inr nba_data"
  shows "expected_actuals nba_data =
           (case column_position ''Pos'' header of
              None \<Rightarrow> Inl (KeyError ''Pos'')
            | Some j \<Rightarrow> Inr (map (cell_at j) (drop (held_out_start (length rows)) rows)))"
proof -
  let ?n = "length rows"
  let ?k = "4 * ?n div 5"
  have idx: "drop_index ?k (table_index NoLeadingField ?n) = IntIndex (map int [?k..<?n])"
    by (simp add: drop_map)
  have sel: "drop (if ?k = 0 \<and> 0 < ?n then 1 else 0) (drop ?k rows)
             = drop (held_out_start ?n) rows"
    by (auto simp: held_out_start_def)
  show ?thesis
    unfolding expected_actuals_read [OF assms] idx
    by (simp only: row_index.case get_slice_bound_left_default sum.case sel)
qed

lemma expected_actuals_int_sorted:
  assumes "read_csv path (Table (IntField labels) header rows) = Inr nba_data"
    and "column_position ''Pos'' header = Some j"
    and "sorted (drop (4 * length rows div 5) labels)"
  shows "expected_actuals nba_data =
           Inr (map (cell_at j)
                  (drop (length (takeWhile (\<lambda>l. l < 1) (drop (4 * length rows div 5) labels)))
                     (drop (4 * length rows div 5) rows)))"
  unfolding expected_actuals_read [OF assms(1)]
  by (simp add: assms(2) get_slice_bound_left_sorted [OF assms(3)])

lemma expected_actuals_text:
  assumes "read_csv path (Table (TextField labels) header rows) = Inr nba_data"
    and "column_position ''Pos'' header = Some j"
  shows "expected_actuals nba_data = Inl (slice_type_error 1)"
  unfolding expected_actuals_read [OF assms(1)] by (simp add: assms(2))

subsection \<open>What \<^verbatim>\<open>grade\<close> returns when it reaches the scores\<close>

lemma grade_try_expected:
  assumes sol: "sol_csv w = Table leading header rows"
    and cols: "resolve_columns header (None, None) = (Some actual_col, Some predicted_col)"
    and nba: "nba_player_stats_csv w = Table nba_leading nba_header nba_rows"
    and ja: "column_position actual_col header = Some ja"
    and jp: "column_position predicted_col header = Some jp"
  shows "grade_try w =
           (case expected_actuals
                   \<lparr>df_index = table_index nba_leading (length nba_rows),
                    df_columns = nba_header, df_rows = nba_rows\<rparr> of
              Inl e \<Rightarrow> ([str_int (test_start_idx (length nba_rows))], Inl e)
            | Inr expected \<Rightarrow>
                ([str_int (test_start_idx (length nba_rows)),
                  str_nat (length rows) @ '' '' @ str_nat (length expected)],
                 Inr (score_submission (length nba_rows) (length rows) expected
                        (map (cell_at ja) rows) (map (cell_at jp) rows))))"
  unfolding grade_try_def
  by (simp add: sol cols nba column_values_def ja jp len_df_def Let_def split: sum.splits)

lemma grade_scoring:
  assumes sol: "sol_csv w = Table leading header rows"
    and cols: "resolve_columns header (None, None) = (Some actual_col, Some predicted_col)"
    and nba: "nba_player_stats_csv w = Table NoLeadingField nba_header nba_rows"
    and pos: "column_position ''Pos'' nba_header = Some j"
    and ja: "column_position actual_col header = Some ja"
    and jp: "column_position predicted_col header = Some jp"
  shows "fst (grade transcript w) =
           score_submission (length nba_rows) (length rows)
             (map (cell_at j) (drop (held_out_start (length nba_rows)) nba_rows))
             (map (cell_at ja) rows) (map (cell_at jp) rows)"
proof -
  have ex: "expected_actuals \<lparr>df_index = table_index NoLeadingField (length nba_rows),
              df_columns = nba_header, df_rows = nba_rows\<rparr>
            = Inr (map (cell_at j) (drop (held_out_start (length nba_rows)) nba_rows))"
    using expected_actuals_table [of "''nba_player_stats.csv''" nba_header nba_rows] pos
    by simp
  show ?thesis
    unfolding grade_def grade_try_expected [OF sol cols nba ja jp] ex
    by (simp add: sol)
qed

subsection \<open>The example tables\<close>

lemma read_example_nba:
  "read_csv ''nba_player_stats.csv'' example_nba_file = Inr example_nba_data"
  by (simp add: example_nba_file_def example_nba_data_def example_nba_rows_def
      upt_rec_numeral)

lemma len_example_nba: "len_df example_nba_data = 10"
  by (simp add: example_nba_data_def example_nba_rows_def len_df_def)

lemma test_start_idx_10: "test_start_idx 10 = 8"
  by (simp add: test_start_idx_def py_int_def)

subsection \<open>The fields of a scored result\<close>

lemma subscores_score_submission:
  "subscores (score_submission total_rows n expected actual predicted) =
     [(''test_size_correct'', size_score n total_rows),
      (''correct_test_split'', actual_match_score actual expected),
      (''classification_accuracy'', accuracy_score actual predicted)]"
  by (simp add: score_submission_def Let_def)

lemma dict_get_score_submission:
  "dict_get (subscores (score_submission total_rows n expected actual predicted))
     ''test_size_correct'' = size_score n total_rows"
  "dict_get (subscores (score_submission total_rows n expected actual predicted))
     ''correct_test_split'' = actual_match_score actual expected"
  "dict_get (subscores (score_submission total_rows n expected actual predicted))
     ''classification_accuracy'' = accuracy_score actual predicted"
  by (simp_all add: subscores_score_submission dict_get_def)

lemma weighted_sum_three:
  "weighted_sum
     [(''test_size_correct'', s1), (''correct_test_split'', s2),
      (''classification_accuracy'', s3)] weights_table
   = 0.2 * s1 + 0.3 * s2 + 0.5 * s3"
  by (simp add: weighted_sum_def weights_table_def dict_get_def)

lemma score_score_submission:
  "score (score_submission total_rows n expected actual predicted) =
     (let s1 = size_score n total_rows; s2 = actual_match_score actual expected;
          s3 = accuracy_score actual predicted; weighted = 0.2 * s1 + 0.3 * s2 + 0.5 * s3
      in if 0.95 \<le> s1 \<and> 0.95 \<le> s2 \<and> 0.95 \<le> s3 then max weighted s3 else weighted)"
  by (simp add: score_submission_def Let_def final_score_def weighted_sum_three)

subsection \<open>The values of the three sub-scores\<close>

lemma size_score_values: "size_score n t = 1 \<or> size_score n t = 0.5"
  by (simp add: size_score_def)

lemma actual_match_score_values: "actual_match_score a e = 1 \<or> actual_match_score a e = 0"
  by (simp add: actual_match_score_def)

lemma count_equal_le: "count_equal a p \<le> length a"
proof -
  have "count_equal a p \<le> length (zip a p)"
    unfolding count_equal_def by (rule length_filter_le)
  moreover have "length (zip a p) \<le> length a" by simp
  ultimately show ?thesis by (rule order_trans)
qed

lemma accuracy_score_bounds: "0 \<le> accuracy_score a p \<and> accuracy_score a p \<le> 1"
proof (cases "accuracy_computed a p")
  case False
  then show ?thesis by (simp add: accuracy_score_def)
next
  case True
  then have pos: "0 < length a" by (auto simp: accuracy_computed_def)
  have "real (count_equal a p) \<le> real (length a)" using count_equal_le [of a p] by simp
  then have "real (count_equal a p) / real (length a) \<le> 1" using pos by simp
  then show ?thesis using True by (simp add: accuracy_score_def accuracy_def)
qed

subsection \<open>Comparing two columns\<close>

lemma array_equal_iff:
  "array_equal a e \<longleftrightarrow> length a = length e \<and> (\<forall>i<length a. cell_eq (a ! i) (e ! i))"
  by (auto simp: array_equal_def list_all_length)

lemma cell_eq_imp_eq: "cell_eq x y \<Longrightarrow> x = y"
  by (cases x; cases y) simp_all

lemma cell_eq_refl_iff: "cell_eq x x \<longleftrightarrow> x \<noteq> NaN"
  by (cases x) simp_all

lemma array_equal_imp_eq: "array_equal a e \<Longrightarrow> a = e"
  by (auto simp: array_equal_iff intro!: nth_equalityI cell_eq_imp_eq)

lemma array_equal_refl_iff: "array_equal a a \<longleftrightarrow> NaN \<notin> set a"
  by (auto simp: array_equal_iff cell_eq_refl_iff in_set_conv_nth)

lemma count_equal_card:
  "count_equal a p = card {i. i < min (length a) (length p) \<and> cell_eq (a ! i) (p ! i)}"
proof -
  have "count_equal a p =
          card {i. i < length (zip a p) \<and> (case zip a p ! i of (x, y) \<Rightarrow> cell_eq x y)}"
    unfolding count_equal_def by (rule length_filter_conv_card)
  also have "{i. i < length (zip a p) \<and> (case zip a p ! i of (x, y) \<Rightarrow> cell_eq x y)}
             = {i. i < min (length a) (length p) \<and> cell_eq (a ! i) (p ! i)}"
    by auto
  finally show ?thesis .
qed

lemma count_equal_all:
  assumes "length a = length p" and "\<forall>i<length a. cell_eq (a ! i) (p ! i)"
  shows "count_equal a p = length a"
proof -
  have "filter (\<lambda>(x, y). cell_eq x y) (zip a p) = zip a p"
    using assms by (auto simp: filter_id_conv in_set_zip)
  then show ?thesis using assms(1) by (simp add: count_equal_def)
qed

subsection \<open>The weighted sum and the test of the override\<close>

lemma all_high_iff:
  "list_all (\<lambda>s. 0.95 \<le> s)
     (map snd (subscores (score_submission total_rows n expected actual predicted)))
   \<longleftrightarrow> 0.95 \<le> size_score n total_rows \<and> 0.95 \<le> actual_match_score actual expected \<and>
       0.95 \<le> accuracy_score actual predicted"
  by (simp add: subscores_score_submission)

lemma plain_weighted_sum_score_submission:
  "plain_weighted_sum (score_submission total_rows n expected actual predicted) =
     0.2 * size_score n total_rows + 0.3 * actual_match_score actual expected +
     0.5 * accuracy_score actual predicted"
  by (simp add: plain_weighted_sum_def dict_get_score_submission)

lemma weights_score_submission:
  "weights (score_submission total_rows n expected actual predicted) = weights_table"
  by (simp add: score_submission_def Let_def)

lemma high_size_score: "0.95 \<le> size_score n t \<Longrightarrow> size_score n t = 1"
  using size_score_values [of n t] by auto

lemma high_actual_match_score: "0.95 \<le> actual_match_score a e \<Longrightarrow> actual_match_score a e = 1"
  using actual_match_score_values [of a e] by auto

subsection \<open>Grading the example submissions\<close>

lemmas score_eval =
  score_submission_def size_score_def size_tolerance_def expected_test_size_div
  actual_match_score_def array_equal_def accuracy_score_def accuracy_computed_def
  accuracy_def count_equal_def final_score_def weighted_sum_def weights_table_def
  dict_get_def size_feedback_def split_feedback_def accuracy_feedback_def
  accuracy_details_def format_3f_def round_half_even_def str_nat.simps str_int_def
  digit_char_def Let_def plain_weighted_sum_def

lemma resolve_example_sol_header:
  "resolve_columns example_sol_header (None, None)
     = (Some ''actual_position'', Some ''predicted_position'')"
  by (simp add: example_sol_header_def lower_def lower_char_def is_upper_def)

lemma held_out_start_10: "held_out_start 10 = 8"
  by (simp add: held_out_start_def)

lemma example_columns:
  "column_position ''Pos'' example_nba_header = Some 1"
  "column_position ''actual_position'' example_sol_header = Some 1"
  "column_position ''predicted_position'' example_sol_header = Some 2"
  by (simp_all add: example_nba_header_def example_sol_header_def)

lemma len_example_nba_rows: "length example_nba_rows = 10"
  by (simp add: example_nba_rows_def)

lemma grade_example_perfect:
  "fst (grade transcript example_perfect_world) =
     score_submission 10 2 [Label ''PF'', Label ''C''] [Label ''PF'', Label ''C'']
       [Label ''PF'', Label ''C'']"
proof -
  have sol: "sol_csv example_perfect_world =
               Table NoLeadingField example_sol_header [ [Label ''p8'', Label ''PF'', Label ''PF''],
                 [Label ''p9'', Label ''C'', Label ''C'']]"
    by (simp add: example_perfect_world_def)
  have nba: "nba_player_stats_csv example_perfect_world =
               Table NoLeadingField example_nba_header example_nba_rows"
    by (simp add: example_perfect_world_def example_nba_file_def)
  show ?thesis
    using grade_scoring [OF sol resolve_example_sol_header nba example_columns,
        unfolded len_example_nba_rows held_out_start_10, of transcript]
    by (simp add: example_nba_rows_def cell_at_def numeral_2_eq_2)
qed

lemma grade_example_half:
  "fst (grade transcript example_half_world) =
     score_submission 10 2 [Label ''PF'', Label ''C''] [Label ''PF'', Label ''C'']
       [Label ''PF'', Label ''SG'']"
proof -
  have sol: "sol_csv example_half_world =
               Table NoLeadingField example_sol_header [ [Label ''p8'', Label ''PF'', Label ''PF''],
                 [Label ''p9'', Label ''C'', Label ''SG'']]"
    by (simp add: example_half_world_def)
  have nba: "nba_player_stats_csv example_half_world =
               Table NoLeadingField example_nba_header example_nba_rows"
    by (simp add: example_half_world_def example_nba_file_def)
  show ?thesis
    using grade_scoring [OF sol resolve_example_sol_header nba example_columns,
        unfolded len_example_nba_rows held_out_start_10, of transcript]
    by (simp add: example_nba_rows_def cell_at_def numeral_2_eq_2)
qed

lemma grade_example_nan:
  "fst (grade transcript example_nan_world) =
     score_submission 10 2 [Label ''PF'', NaN] [Label ''PF'', NaN]
       [Label ''PF'', Label ''C'']"
proof -
  have sol: "sol_csv example_nan_world =
               Table NoLeadingField example_sol_header [ [Label ''p8'', Label ''PF'', Label ''PF''],
                 [Label ''p9'', NaN, Label ''C'']]"
    by (simp add: example_nan_world_def)
  have nba: "nba_player_stats_csv example_nan_world =
               Table NoLeadingField example_nba_header (take 9 example_nba_rows @ [ [Label ''p9'', NaN]])"
    by (simp add: example_nan_world_def)
  have len: "length (take 9 example_nba_rows @ [ [Label ''p9'', NaN]]) = 10"
    by (simp add: example_nba_rows_def)
  show ?thesis
    using grade_scoring [OF sol resolve_example_sol_header nba example_columns,
        unfolded len held_out_start_10, of transcript]
    by (simp add: example_nba_rows_def cell_at_def numeral_2_eq_2)
qed


lemmas header_eval = lower_def lower_char_def is_upper_def is_actual_header_def
  is_predicted_header_def is_predicted_only_def

subsection \<open>A submission without the two columns\<close>

lemma grade_missing_columns:
  assumes "sol_csv w = Table leading header rows"
    and "last_match is_actual_header header = None \<or>
         last_match is_predicted_only header = None"
  shows "grade transcript w = (missing_columns_result header, w)"
proof -
  have "grade_try w = ([], Inr (missing_columns_result header))"
    using assms
    by (auto simp: grade_try_def resolve_columns_last split: option.splits)
  then show ?thesis using assms(1) by (simp add: grade_def)
qed


lemma grade_try_example_text_label:
  "grade_try example_text_label_world = ([''8''], Inl (slice_type_error 1))"
proof -
  have sol: "sol_csv example_text_label_world = Table NoLeadingField example_sol_header []"
    and nba: "nba_player_stats_csv example_text_label_world =
                Table (TextField example_text_labels) example_nba_header example_nba_rows"
    by (simp_all add: example_text_label_world_def)
  have ex: "expected_actuals
              \<lparr>df_index = table_index (TextField example_text_labels) (length example_nba_rows),
               df_columns = example_nba_header, df_rows = example_nba_rows\<rparr>
            = Inl (slice_type_error 1)"
    using expected_actuals_text [of "''nba_player_stats.csv''" example_text_labels
        example_nba_header example_nba_rows _ 1] example_columns(1)
    by simp
  show ?thesis
    unfolding grade_try_expected [OF sol resolve_example_sol_header nba example_columns(2,3)] ex
    by (simp add: len_example_nba_rows test_start_idx_10 str_int_def str_nat.simps
        digit_char_def)
qed

subsection \<open>The ways \<^verbatim>\<open>grade\<close> ends\<close>

lemma grade_missing_file:
  "sol_csv w = Absent \<Longrightarrow> grade transcript w = (missing_file_result, w)"
  by (simp add: grade_def)

lemma grade_raises:
  assumes "exists_file (sol_csv w)" and "grade_try w = (out, Inl e)"
  shows "grade transcript w = (processing_error_result e, w\<lparr>stdout := stdout w @ out\<rparr>)"
  using assms by (simp add: grade_def)

lemma grade_try_sol_unreadable:
  "sol_csv w = Unreadable msg \<Longrightarrow> grade_try w = ([], Inl (ReadError msg))"
  by (simp add: grade_try_def)

lemma grade_try_nba_absent:
  assumes "sol_csv w = Table leading header rows"
    and "resolve_columns header (None, None) = (Some actual_col, Some predicted_col)"
    and "nba_player_stats_csv w = Absent"
  shows "grade_try w = ([], Inl (FileNotFoundError ''nba_player_stats.csv''))"
  using assms by (simp add: grade_try_def)

lemma grade_try_nba_unreadable:
  assumes "sol_csv w = Table leading header rows"
    and "resolve_columns header (None, None) = (Some actual_col, Some predicted_col)"
    and "nba_player_stats_csv w = Unreadable msg"
  shows "grade_try w = ([], Inl (ReadError msg))"
  using assms by (simp add: grade_try_def)

lemma grade_try_no_pos:
  assumes "sol_csv w = Table leading header rows"
    and "resolve_columns header (None, None) = (Some actual_col, Some predicted_col)"
    and "nba_player_stats_csv w = Table nba_leading nba_header nba_rows"
    and "column_position ''Pos'' nba_header = None"
  shows "grade_try w = ([str_int (test_start_idx (length nba_rows))], Inl (KeyError ''Pos''))"
proof -
  have "expected_actuals \<lparr>df_index = table_index nba_leading (length nba_rows),
              df_columns = nba_header, df_rows = nba_rows\<rparr> = Inl (KeyError ''Pos'')"
    using expected_actuals_read [of "''nba_player_stats.csv''" nba_leading nba_header nba_rows]
      assms(4)
    by simp
  then show ?thesis
    unfolding grade_try_def using assms(1-3) by (simp add: len_df_def Let_def)
qed

lemma grade_outcomes:
  "fst (grade transcript w) = missing_file_result \<or>
   (\<exists>header. fst (grade transcript w) = missing_columns_result header) \<or>
   (\<exists>e. fst (grade transcript w) = processing_error_result e) \<or>
   (\<exists>total_rows n expected actual predicted.
      fst (grade transcript w) = score_submission total_rows n expected actual predicted)"
proof (cases "sol_csv w")
  case Absent
  then show ?thesis by (simp add: grade_missing_file)
next
  case (Unreadable msg)
  then have "fst (grade transcript w) = processing_error_result (ReadError msg)"
    using grade_raises [OF _ grade_try_sol_unreadable [OF Unreadable]] by simp
  then show ?thesis by blast
next
  case (Table leading header rows)
  then have ex: "exists_file (sol_csv w)" by simp
  show ?thesis
  proof (cases "last_match is_actual_header header = None \<or>
                last_match is_predicted_only header = None")
    case True
    then show ?thesis using grade_missing_columns [OF Table True] by auto
  next
    case False
    then obtain a p where cols: "resolve_columns header (None, None) = (Some a, Some p)"
      by (auto simp: resolve_columns_last)
    from resolve_columns_found [OF cols] obtain ja jp
      where ja: "column_position a header = Some ja"
        and jp: "column_position p header = Some jp" by blast
    show ?thesis
    proof (cases "nba_player_stats_csv w")
      case Absent
      show ?thesis
        using grade_raises [OF ex grade_try_nba_absent [OF Table cols Absent]] by auto
    next
      case (Unreadable msg)
      show ?thesis
        using grade_raises [OF ex grade_try_nba_unreadable [OF Table cols Unreadable]] by auto
    next
      case nba: (Table nba_leading nba_header nba_rows)
      note run = grade_try_expected [OF Table cols nba ja jp]
      show ?thesis
      proof (cases "expected_actuals
                      \<lparr>df_index = table_index nba_leading (length nba_rows),
                       df_columns = nba_header, df_rows = nba_rows\<rparr>")
        case (Inl e)
        have "grade_try w = ([str_int (test_start_idx (length nba_rows))], Inl e)"
          unfolding run Inl by simp
        from grade_raises [OF ex this] show ?thesis by auto
      next
        case (Inr expected)
        have "fst (grade transcript w) =
                score_submission (length nba_rows) (length rows) expected
                  (map (cell_at ja) rows) (map (cell_at jp) rows)"
          unfolding grade_def run Inr using ex by simp
        then show ?thesis by metis
      qed
    qed
  qed
qed

subsection \<open>\<^verbatim>\<open>grade\<close> reads the two files and writes neither\<close>

lemma grade_try_files:
  assumes "sol_csv w1 = sol_csv w2"
    and "nba_player_stats_csv w1 = nba_player_stats_csv w2"
  shows "grade_try w1 = grade_try w2"
  unfolding grade_try_def assms ..

lemma grade_files_unchanged:
  "sol_csv (snd (grade transcript w)) = sol_csv w \<and>
   nba_player_stats_csv (snd (grade transcript w)) = nba_player_stats_csv w"
  by (simp add: grade_def split: prod.splits sum.splits)

lemma grade_result_files:
  assumes "sol_csv w1 = sol_csv w2"
    and "nba_player_stats_csv w1 = nba_player_stats_csv w2"
  shows "fst (grade t1 w1) = fst (grade t2 w2)"
  using grade_try_files [OF assms] assms(1)
  by (simp add: grade_def split: prod.splits sum.splits)

subsection \<open>The feedback of a scored result\<close>

lemma feedback_score_submission:
  "feedback (score_submission total_rows n expected actual predicted) =
     Some (join '' | '' (size_feedback n total_rows @ split_feedback actual expected @
             accuracy_feedback actual predicted))"
proof -
  have "accuracy_feedback actual predicted \<noteq> []"
    by (simp add: accuracy_feedback_def)
  then show ?thesis by (simp add: score_submission_def Let_def)
qed

section \<open>The claims\<close>

subsection \<open>C1: the expected labels\<close>

text \<open>
  C1 as worded fails: on the ten-player ground truth the rows from position
  \<open>floor (0.8 * 10) = 8\<close> are the last two, with labels PF and C. \<^verbatim>\<open>grade\<close> expects both;
  the claimed sequence, without the first row of the slice, is C alone.
\<close>

theorem expected_actuals_keeps_first_row:
  "read_csv ''nba_player_stats.csv'' example_nba_file = Inr example_nba_data \<and>
   expected_actuals example_nba_data = Inr [Label ''PF'', Label ''C''] \<and>
   claimed_expected_held_out example_nba_data = Inr [Label ''C'']"
proof -
  have "expected_actuals example_nba_data = loc_from 1 ''Pos'' (iloc_from 8 example_nba_data)"
    by (simp add: expected_actuals_def len_example_nba test_start_idx_10)
  then have "expected_actuals example_nba_data = Inr [Label ''PF'', Label ''C'']"
    by (simp add: example_nba_data_def example_nba_rows_def example_nba_header_def
        iloc_from_def slice_start_def loc_from_def cell_at_def get_slice_bound_left_def)
  moreover have "claimed_expected_held_out example_nba_data =
      map_sum id (\<lambda>pos. tl (drop 8 pos)) (column_values example_nba_data ''Pos'')"
    by (simp add: claimed_expected_held_out_def len_example_nba split: sum.splits)
  then have "claimed_expected_held_out example_nba_data = Inr [Label ''C'']"
    by (simp add: example_nba_data_def example_nba_rows_def example_nba_header_def
        column_values_def cell_at_def)
  ultimately show ?thesis by (simp add: read_example_nba)
qed

text \<open>
  C1, amended: \<^verbatim>\<open>.loc[1:]\<close> selects by row label, not by position, so the expected labels are
  the \<^verbatim>\<open>Pos\<close> labels of those rows of the slice from position \<open>floor (0.8 * total_rows)\<close> that
  the labels select. For a ground truth with a \<^verbatim>\<open>Pos\<close> column:

  \<^item> without a leading field the rows keep the labels \<open>0, 1, ...\<close> of the whole table, and the
    expected labels are those of the rows from position \<open>max 1 (floor (0.8 * total_rows))\<close>
    to the end: with two rows or more the whole slice, its first row included; with a single
    row, labelled 0, nothing;
  \<^item> with a leading field of integers the rows are selected from the slice bound of the
    label 1; when the labels of the slice are increasing, these are the rows of the slice
    from the first one whose label is at least 1;
  \<^item> with a leading field of text the slice raises a TypeError, and there are no expected
    labels.
\<close>

theorem expected_actuals_selected_by_label:
  assumes "read_csv path (Table leading header rows) = Inr nba_data"
    and "column_position ''Pos'' header = Some j"
  shows "(leading = NoLeadingField \<longrightarrow>
            expected_actuals nba_data =
              Inr (map (cell_at j) (drop (max 1 (nat \<lfloor>0.8 * real (length rows)\<rfloor>)) rows)) \<and>
            (2 \<le> length rows \<longrightarrow>
               expected_actuals nba_data =
                 Inr (map (cell_at j) (drop (nat \<lfloor>0.8 * real (length rows)\<rfloor>) rows))) \<and>
            (length rows = 1 \<longrightarrow> expected_actuals nba_data = Inr [])) \<and>
         (leading = IntField labels \<longrightarrow>
            expected_actuals nba_data =
              (case get_slice_bound_left 1 (drop (nat \<lfloor>0.8 * real (length rows)\<rfloor>) labels) of
                 Inl e \<Rightarrow> Inl e
               | Inr p \<Rightarrow>
                   Inr (map (cell_at j)
                          (drop p (drop (nat \<lfloor>0.8 * real (length rows)\<rfloor>) rows)))) \<and>
            (sorted (drop (nat \<lfloor>0.8 * real (length rows)\<rfloor>) labels) \<longrightarrow>
               expected_actuals nba_data =
                 Inr (map (cell_at j)
                        (drop (length (takeWhile (\<lambda>l. l < 1)
                                  (drop (nat \<lfloor>0.8 * real (length rows)\<rfloor>) labels)))
                           (drop (nat \<lfloor>0.8 * real (length rows)\<rfloor>) rows))))) \<and>
         (leading = TextField names \<longrightarrow> expected_actuals nba_data = Inl (slice_type_error 1))"
proof -
  let ?n = "length rows"
  have k: "nat \<lfloor>0.8 * real ?n\<rfloor> = 4 * ?n div 5"
    using test_start_idx_div [of ?n] by (simp add: test_start_idx_def py_int_def)
  have default: "expected_actuals nba_data = Inr (map (cell_at j) (drop (max 1 (4 * ?n div 5)) rows))"
    if "leading = NoLeadingField"
  proof -
    have "read_csv path (Table NoLeadingField header rows) = Inr nba_data"
      using assms(1) that by simp
    from expected_actuals_table [OF this] assms(2) show ?thesis
      by (simp add: held_out_start_def)
  qed
  have whole: "expected_actuals nba_data = Inr (map (cell_at j) (drop (4 * ?n div 5) rows))"
    if "leading = NoLeadingField" "2 \<le> ?n"
  proof -
    have "1 \<le> 4 * ?n div 5" using that(2) by linarith
    then have "max 1 (4 * ?n div 5) = 4 * ?n div 5" by simp
    then show ?thesis using default [OF that(1)] by simp
  qed
  have single: "expected_actuals nba_data = Inr []"
    if "leading = NoLeadingField" "?n = 1"
    using default [OF that(1)] that(2) by simp
  have ints: "expected_actuals nba_data =
      (case get_slice_bound_left 1 (drop (4 * ?n div 5) labels) of
         Inl e \<Rightarrow> Inl e
       | Inr p \<Rightarrow> Inr (map (cell_at j) (drop p (drop (4 * ?n div 5) rows))))"
    if "leading = IntField labels"
    unfolding expected_actuals_read [OF assms(1)] by (simp add: assms(2) that)
  have increasing: "expected_actuals nba_data =
      Inr (map (cell_at j)
             (drop (length (takeWhile (\<lambda>l. l < 1) (drop (4 * ?n div 5) labels)))
                (drop (4 * ?n div 5) rows)))"
    if "leading = IntField labels" "sorted (drop (4 * ?n div 5) labels)"
  proof -
    have "read_csv path (Table (IntField labels) header rows) = Inr nba_data"
      using assms(1) that(1) by simp
    from expected_actuals_int_sorted [OF this assms(2) that(2)] show ?thesis .
  qed
  have names: "expected_actuals nba_data = Inl (slice_type_error 1)"
    if "leading = TextField names"
  proof -
    have "read_csv path (Table (TextField names) header rows) = Inr nba_data"
      using assms(1) that by simp
    from expected_actuals_text [OF this assms(2)] show ?thesis .
  qed
  show ?thesis
    unfolding k using default whole single ints increasing names by blast
qed

text \<open>
  C1, witness: the ten-player ground truth, whose slice starts at label 8 and is expected
  whole; a ground truth of one player, whose only row has label 0 and is left out; the
  ten players with a 0 in front of every row, where no row of the slice has a label of at
  least 1; and the ten players with a text in front of every row.
\<close>

theorem expected_actuals_selected_by_label_witness:
  "read_csv ''nba_player_stats.csv'' (Table NoLeadingField example_nba_header example_nba_rows)
     = Inr example_nba_data \<and>
   column_position ''Pos'' example_nba_header = Some 1 \<and>
   2 \<le> length example_nba_rows \<and>
   expected_actuals example_nba_data = Inr [Label ''PF'', Label ''C''] \<and>
   length [ [Label ''p0'', Label ''PG'']] = 1 \<and>
   expected_actuals
     \<lparr>df_index = IntIndex [0], df_columns = example_nba_header,
      df_rows = [ [Label ''p0'', Label ''PG'']]\<rparr> = Inr [] \<and>
   sorted (drop 8 example_zero_labels) \<and>
   expected_actuals
     \<lparr>df_index = IntIndex example_zero_labels, df_columns = example_nba_header,
      df_rows = example_nba_rows\<rparr> = Inr [] \<and>
   expected_actuals
     \<lparr>df_index = TextIndex example_text_labels, df_columns = example_nba_header,
      df_rows = example_nba_rows\<rparr> = Inl (slice_type_error 1)"
proof -
  have pos: "column_position ''Pos'' example_nba_header = Some 1"
    by (simp add: example_nba_header_def)
  have len: "length example_nba_rows = 10"
    by (simp add: example_nba_rows_def)
  have k: "nat \<lfloor>0.8 * real (10::nat)\<rfloor> = 8"
    by simp
  have rd: "read_csv ''nba_player_stats.csv''
              (Table NoLeadingField example_nba_header example_nba_rows) = Inr example_nba_data"
    using read_example_nba by (simp add: example_nba_file_def)
  note ten = expected_actuals_selected_by_label [OF rd pos, THEN conjunct1, rule_format,
      OF refl, unfolded len k]
  have a: "expected_actuals example_nba_data = Inr [Label ''PF'', Label ''C'']"
    using ten by (simp add: example_nba_rows_def cell_at_def)
  have rd1: "read_csv ''nba_player_stats.csv''
               (Table NoLeadingField example_nba_header [ [Label ''p0'', Label ''PG'']])
             = Inr \<lparr>df_index = IntIndex [0], df_columns = example_nba_header,
                    df_rows = [ [Label ''p0'', Label ''PG'']]\<rparr>"
    by simp
  have b: "expected_actuals
     \<lparr>df_index = IntIndex [0], df_columns = example_nba_header,
      df_rows = [ [Label ''p0'', Label ''PG'']]\<rparr> = Inr []"
    using expected_actuals_selected_by_label [OF rd1 pos, THEN conjunct1, rule_format, OF refl]
    by simp
  have rd2: "read_csv ''nba_player_stats.csv''
               (Table (IntField example_zero_labels) example_nba_header example_nba_rows)
             = Inr \<lparr>df_index = IntIndex example_zero_labels, df_columns = example_nba_header,
                    df_rows = example_nba_rows\<rparr>"
    by simp
  have srt: "sorted (drop 8 example_zero_labels)"
    by (simp add: example_zero_labels_def)
  note zero = expected_actuals_selected_by_label [OF rd2 pos,
      where labels = example_zero_labels, THEN conjunct2, THEN conjunct1, rule_format,
      OF refl, THEN conjunct2, unfolded len k, rule_format, OF srt]
  have c: "expected_actuals
     \<lparr>df_index = IntIndex example_zero_labels, df_columns = example_nba_header,
      df_rows = example_nba_rows\<rparr> = Inr []"
    using zero by (simp add: example_zero_labels_def example_nba_rows_def)
  have rd3: "read_csv ''nba_player_stats.csv''
               (Table (TextField example_text_labels) example_nba_header example_nba_rows)
             = Inr \<lparr>df_index = TextIndex example_text_labels, df_columns = example_nba_header,
                    df_rows = example_nba_rows\<rparr>"
    by simp
  note d = expected_actuals_selected_by_label [OF rd3 pos,
      where names = example_text_labels, THEN conjunct2, THEN conjunct2, rule_format, OF refl]
  show ?thesis using rd pos len a b srt c d by simp
qed

subsection \<open>C2: the split sub-score\<close>

text \<open>
  C2 as worded fails on a missing label: in this ground truth the last player has no
  position, the submission gives the two held-out labels back exactly as they are, and the
  two sequences handed to the scoring are the same, yet \<^verbatim>\<open>correct_test_split\<close> is 0.
\<close>

theorem identical_missing_labels_score_zero:
  "fst (grade [] example_nan_world) =
     score_submission 10 2 [Label ''PF'', NaN] [Label ''PF'', NaN] [Label ''PF'', Label ''C''] \<and>
   dict_get (subscores (fst (grade [] example_nan_world))) ''correct_test_split'' = 0"
  unfolding grade_example_nan by (simp add: score_eval)

text \<open>
  C2, amended: \<^verbatim>\<open>correct_test_split\<close> is 1 or 0; it is 1 exactly when the actual-label
  sequence has the length of the expected one and \<^verbatim>\<open>==\<close> holds at every position, where a
  missing label is equal to nothing, not even to a missing label. For an actual-label sequence
  without missing labels that is: exactly when the two sequences are identical. Every
  difference, in one position or in length, gives 0.
\<close>

theorem correct_test_split_all_or_nothing:
  assumes "r = score_submission total_rows actual_test_size expected actual_values
                 predicted_values"
  shows "(dict_get (subscores r) ''correct_test_split'' = 1 \<or>
          dict_get (subscores r) ''correct_test_split'' = 0) \<and>
         (dict_get (subscores r) ''correct_test_split'' = 1 \<longleftrightarrow>
            length actual_values = length expected \<and>
            (\<forall>i<length actual_values. cell_eq (actual_values ! i) (expected ! i))) \<and>
         (NaN \<notin> set actual_values \<longrightarrow>
            (dict_get (subscores r) ''correct_test_split'' = 1 \<longleftrightarrow>
               actual_values = expected)) \<and>
         (actual_values \<noteq> expected \<longrightarrow>
            dict_get (subscores r) ''correct_test_split'' = 0)"
proof -
  let ?s = "actual_match_score actual_values expected"
  have one: "?s = 1 \<longleftrightarrow> array_equal actual_values expected"
    by (auto simp: actual_match_score_def array_equal_def)
  have vals: "?s = 1 \<or> ?s = 0" by (rule actual_match_score_values)
  have pos: "?s = 1 \<longleftrightarrow> length actual_values = length expected \<and>
            (\<forall>i<length actual_values. cell_eq (actual_values ! i) (expected ! i))"
    unfolding one by (rule array_equal_iff)
  have lab: "?s = 1 \<longleftrightarrow> actual_values = expected" if "NaN \<notin> set actual_values"
    unfolding one using that array_equal_imp_eq array_equal_refl_iff by blast
  have diff: "?s = 0" if "actual_values \<noteq> expected"
    using that vals one array_equal_imp_eq by blast
  show ?thesis
    unfolding assms dict_get_score_submission using vals pos lab diff by blast
qed

text \<open>
  C2, witness: with the expected labels PF and C, the actual labels PF and C score 1 and
  the actual labels PF and PG score 0.
\<close>

theorem correct_test_split_all_or_nothing_witness:
  "NaN \<notin> set [Label ''PF'', Label ''C''] \<and>
   dict_get (subscores (score_submission 10 2 [Label ''PF'', Label ''C'']
      [Label ''PF'', Label ''C''] [Label ''PF'', Label ''SG''])) ''correct_test_split'' = 1 \<and>
   [Label ''PF'', Label ''PG''] \<noteq> [Label ''PF'', Label ''C''] \<and>
   dict_get (subscores (score_submission 10 2 [Label ''PF'', Label ''C'']
      [Label ''PF'', Label ''PG''] [Label ''PF'', Label ''SG''])) ''correct_test_split'' = 0"
  using correct_test_split_all_or_nothing [OF refl, of 10 2 "[Label ''PF'', Label ''C'']"
      "[Label ''PF'', Label ''C'']" "[Label ''PF'', Label ''SG'']"]
    correct_test_split_all_or_nothing [OF refl, of 10 2 "[Label ''PF'', Label ''C'']"
      "[Label ''PF'', Label ''PG'']" "[Label ''PF'', Label ''SG'']"]
  by simp

subsection \<open>C3: the final score\<close>

text \<open>
  C3: in a scored result the weights are 0.2, 0.3 and 0.5, the score is the weighted sum of
  the three sub-scores, replaced by the larger of that sum and the accuracy when every
  sub-score is at least 0.95, and it is never below the weighted sum.
\<close>

theorem final_score_weighted_with_override:
  assumes "r = score_submission total_rows actual_test_size expected actual_values
                 predicted_values"
  shows "weights r =
           [(''test_size_correct'', 0.2), (''correct_test_split'', 0.3),
            (''classification_accuracy'', 0.5)] \<and>
         score r =
           (if list_all (\<lambda>s. 0.95 \<le> s) (map snd (subscores r))
            then max (plain_weighted_sum r)
                   (dict_get (subscores r) ''classification_accuracy'')
            else plain_weighted_sum r) \<and>
         plain_weighted_sum r \<le> score r"
proof -
  have w: "weights r = [(''test_size_correct'', 0.2), (''correct_test_split'', 0.3),
            (''classification_accuracy'', 0.5)]"
    by (simp add: assms weights_score_submission weights_table_def)
  have s: "score r =
           (if list_all (\<lambda>s. 0.95 \<le> s) (map snd (subscores r))
            then max (plain_weighted_sum r)
                   (dict_get (subscores r) ''classification_accuracy'')
            else plain_weighted_sum r)"
    unfolding assms all_high_iff plain_weighted_sum_score_submission
      dict_get_score_submission score_score_submission
    by (simp add: Let_def)
  have "plain_weighted_sum r \<le> score r"
    unfolding s by simp
  with w s show ?thesis by blast
qed

text \<open>
  C3, witness: half of the predictions right on the right split scores 0.75, the weighted
  sum; all of them right scores 1.
\<close>

theorem final_score_weighted_with_override_witness:
  "plain_weighted_sum (score_submission 10 2 [Label ''PF'', Label ''C'']
      [Label ''PF'', Label ''C''] [Label ''PF'', Label ''SG'']) = 0.75 \<and>
   score (score_submission 10 2 [Label ''PF'', Label ''C'']
      [Label ''PF'', Label ''C''] [Label ''PF'', Label ''SG'']) = 0.75 \<and>
   score (score_submission 10 2 [Label ''PF'', Label ''C'']
      [Label ''PF'', Label ''C''] [Label ''PF'', Label ''C'']) = 1"
  using final_score_weighted_with_override [OF refl, of 10 2 "[Label ''PF'', Label ''C'']"
      "[Label ''PF'', Label ''C'']" "[Label ''PF'', Label ''SG'']"]
    final_score_weighted_with_override [OF refl, of 10 2 "[Label ''PF'', Label ''C'']"
      "[Label ''PF'', Label ''C'']" "[Label ''PF'', Label ''C'']"]
  by (simp add: score_eval)

subsection \<open>C4: the two columns\<close>

text \<open>
  C4 as worded fails: of two header names that contain \<^verbatim>\<open>actual\<close> the loop keeps the last
  one, \<^verbatim>\<open>actual_team\<close>, where the first match is \<^verbatim>\<open>actual_position\<close>.
\<close>

theorem resolve_columns_takes_last_actual:
  "resolve_columns example_ambiguous_header (None, None)
     = (Some ''actual_team'', Some ''predicted_position'') \<and>
   find is_actual_header example_ambiguous_header = Some ''actual_position''"
  by (simp add: example_ambiguous_header_def header_eval)

text \<open>
  C4, amended: the actual role is resolved to the last header name that contains
  \<^verbatim>\<open>actual\<close> (case-insensitive), and the predicted role to the last header name that contains
  \<^verbatim>\<open>predicted\<close> and does not contain \<^verbatim>\<open>actual\<close>: a name with both serves the actual role only.
  If a role is left without a name, in particular if no name contains \<^verbatim>\<open>actual\<close> or no name
  contains \<^verbatim>\<open>predicted\<close>, grading ends with score 0 and the error
  \<^verbatim>\<open>missing_required_columns\<close>.
\<close>

theorem resolve_columns_last_match_wins:
  assumes "sol_csv w = Table leading header rows"
  shows "resolve_columns header (None, None) =
           (last_match is_actual_header header, last_match is_predicted_only header) \<and>
         ((\<forall>col\<in>set header. \<not> is_actual_header col) \<or>
          (\<forall>col\<in>set header. \<not> is_predicted_header col) \<or>
          last_match is_actual_header header = None \<or>
          last_match is_predicted_only header = None \<longrightarrow>
            fst (grade transcript w) = missing_columns_result header \<and>
            score (fst (grade transcript w)) = 0 \<and>
            details (fst (grade transcript w)) =
              Some [(''error'', DStr ''missing_required_columns''),
                    (''columns'', DStrList header)])"
proof -
  have none: "last_match is_actual_header header = None \<or>
              last_match is_predicted_only header = None"
    if "(\<forall>col\<in>set header. \<not> is_actual_header col) \<or>
        (\<forall>col\<in>set header. \<not> is_predicted_header col) \<or>
        last_match is_actual_header header = None \<or>
        last_match is_predicted_only header = None"
    using that by (auto simp: last_match_None is_predicted_only_def)
  have res: "fst (grade transcript w) = missing_columns_result header"
    if "last_match is_actual_header header = None \<or>
        last_match is_predicted_only header = None"
    using grade_missing_columns [OF assms that] by simp
  have "score (missing_columns_result header) = 0 \<and>
        details (missing_columns_result header) =
          Some [(''error'', DStr ''missing_required_columns''), (''columns'', DStrList header)]"
    by (simp add: missing_columns_result_def)
  then show ?thesis using none res resolve_columns_last [of header] by metis
qed

text \<open>
  C4, witness: the header \<^verbatim>\<open>name, guess, truth\<close> has no name for the actual role.
\<close>

theorem resolve_columns_last_match_wins_witness:
  "sol_csv example_unmatched_world = Table NoLeadingField [''name'', ''guess'', ''truth''] [] \<and>
   last_match is_actual_header [''name'', ''guess'', ''truth''] = None \<and>
   score (fst (grade [] example_unmatched_world)) = 0 \<and>
   details (fst (grade [] example_unmatched_world)) =
     Some [(''error'', DStr ''missing_required_columns''),
           (''columns'', DStrList [''name'', ''guess'', ''truth''])]"
proof -
  have sol: "sol_csv example_unmatched_world = Table NoLeadingField [''name'', ''guess'', ''truth''] []"
    by (simp add: example_unmatched_world_def)
  have none: "last_match is_actual_header [''name'', ''guess'', ''truth''] = None"
    by (simp add: last_match_def header_eval)
  show ?thesis
    using resolve_columns_last_match_wins [OF sol, where transcript = "[]", THEN conjunct2] sol none
    by (simp add: missing_columns_result_def)
qed

subsection \<open>C5: the accuracy sub-score\<close>

text \<open>
  C5: for two sequences of one length that is not zero, \<^verbatim>\<open>classification_accuracy\<close> is the
  number of positions where \<^verbatim>\<open>actual == predicted\<close> divided by the length; for different
  lengths or length zero it is 0. When the two sequences have one non-zero length and
  \<^verbatim>\<open>==\<close> holds at every position, the accuracy is 1, and the score is 1 if the other two
  sub-scores are at least 0.95.
\<close>

theorem classification_accuracy_fraction:
  assumes "r = score_submission total_rows actual_test_size expected actual_values
                 predicted_values"
  shows "(length actual_values = length predicted_values \<and> 0 < length actual_values \<longrightarrow>
            dict_get (subscores r) ''classification_accuracy'' =
              real (count_equal actual_values predicted_values) /
              real (length actual_values)) \<and>
         count_equal actual_values predicted_values =
           card {i. i < min (length actual_values) (length predicted_values) \<and>
                    cell_eq (actual_values ! i) (predicted_values ! i)} \<and>
         (length actual_values \<noteq> length predicted_values \<or> length actual_values = 0 \<longrightarrow>
            dict_get (subscores r) ''classification_accuracy'' = 0) \<and>
         (length actual_values = length predicted_values \<and> 0 < length actual_values \<and>
          (\<forall>i<length actual_values. cell_eq (actual_values ! i) (predicted_values ! i)) \<longrightarrow>
            dict_get (subscores r) ''classification_accuracy'' = 1 \<and>
            (0.95 \<le> dict_get (subscores r) ''test_size_correct'' \<and>
             0.95 \<le> dict_get (subscores r) ''correct_test_split'' \<longrightarrow> score r = 1))"
proof -
  let ?a = actual_values and ?p = predicted_values
  have frac: "accuracy_score ?a ?p = real (count_equal ?a ?p) / real (length ?a)"
    if "length ?a = length ?p \<and> 0 < length ?a"
    using that by (simp add: accuracy_score_def accuracy_computed_def accuracy_def)
  have zero: "accuracy_score ?a ?p = 0" if "length ?a \<noteq> length ?p \<or> length ?a = 0"
    using that by (auto simp: accuracy_score_def accuracy_computed_def)
  have one: "accuracy_score ?a ?p = 1"
    if "length ?a = length ?p" "0 < length ?a" "\<forall>i<length ?a. cell_eq (?a ! i) (?p ! i)"
    using that frac count_equal_all [of ?a ?p] by simp
  have final: "score r = 1"
    if "accuracy_score ?a ?p = 1" "0.95 \<le> size_score actual_test_size total_rows"
      "0.95 \<le> actual_match_score ?a expected"
    unfolding assms score_score_submission Let_def
    using that high_size_score [OF that(2)] high_actual_match_score [OF that(3)] by simp
  show ?thesis
    unfolding assms dict_get_score_submission
    using frac zero one final count_equal_card [of ?a ?p] unfolding assms by blast
qed

text \<open>
  C5, witness: one of two predictions right gives 1/2, a prediction column of another
  length gives 0, and both right gives accuracy 1 and, on the right split and size, score 1.
\<close>

theorem classification_accuracy_fraction_witness:
  "length [Label ''PF'', Label ''C''] = length [Label ''PF'', Label ''SG''] \<and>
   0 < length [Label ''PF'', Label ''C''] \<and>
   dict_get (subscores (score_submission 10 2 [Label ''PF'', Label ''C'']
      [Label ''PF'', Label ''C''] [Label ''PF'', Label ''SG''])) ''classification_accuracy''
     = 1 / 2 \<and>
   length [Label ''PF'', Label ''C''] \<noteq> length [Label ''PF''] \<and>
   dict_get (subscores (score_submission 10 2 [Label ''PF'', Label ''C'']
      [Label ''PF'', Label ''C''] [Label ''PF''])) ''classification_accuracy'' = 0 \<and>
   dict_get (subscores (score_submission 10 2 [Label ''PF'', Label ''C'']
      [Label ''PF'', Label ''C''] [Label ''PF'', Label ''C''])) ''classification_accuracy'' = 1 \<and>
   score (score_submission 10 2 [Label ''PF'', Label ''C'']
      [Label ''PF'', Label ''C''] [Label ''PF'', Label ''C'']) = 1"
proof -
  let ?a = "[Label ''PF'', Label ''C'']"
  note half = classification_accuracy_fraction [OF refl, of ?a "[Label ''PF'', Label ''SG'']"
      10 2 ?a, THEN conjunct1]
  note short = classification_accuracy_fraction [OF refl, of ?a "[Label ''PF'']"
      10 2 ?a, THEN conjunct2, THEN conjunct2, THEN conjunct1]
  note same = classification_accuracy_fraction [OF refl, of ?a ?a
      10 2 ?a, THEN conjunct2, THEN conjunct2, THEN conjunct2]
  have all_eq: "\<forall>i<length ?a. cell_eq (?a ! i) (?a ! i)"
    by (auto simp: less_Suc_eq)
  have "dict_get (subscores (score_submission 10 2 ?a ?a [Label ''PF'', Label ''SG'']))
          ''classification_accuracy'' = 1 / 2"
    using half by (simp add: count_equal_def)
  moreover have "dict_get (subscores (score_submission 10 2 ?a ?a [Label ''PF'']))
          ''classification_accuracy'' = 0"
    using short by simp
  moreover have one: "dict_get (subscores (score_submission 10 2 ?a ?a ?a))
          ''classification_accuracy'' = 1"
    using same all_eq by simp
  moreover have "score (score_submission 10 2 ?a ?a ?a) = 1"
  proof -
    have "0.95 \<le> dict_get (subscores (score_submission 10 2 ?a ?a ?a)) ''test_size_correct''"
      by (simp add: dict_get_score_submission size_score_def size_tolerance_def
          expected_test_size_div)
    moreover have "0.95 \<le> dict_get (subscores (score_submission 10 2 ?a ?a ?a))
        ''correct_test_split''"
      by (simp add: dict_get_score_submission actual_match_score_def array_equal_def)
    ultimately show ?thesis using same all_eq by simp
  qed
  ultimately show ?thesis by simp
qed

subsection \<open>C6: the size sub-score\<close>

text \<open>
  C6: \<^verbatim>\<open>test_size_correct\<close> is 1 when the number of rows of the submission differs from
  \<open>floor (0.2 * total_rows)\<close> by at most 2, and 0.5 otherwise; it is never 0. For 100 rows the
  expected size is 20 and the split starts at 80.
\<close>

theorem test_size_correct_tolerance:
  assumes "r = score_submission total_rows actual_test_size expected actual_values
                 predicted_values"
  shows "dict_get (subscores r) ''test_size_correct'' =
           (if \<bar>int actual_test_size - \<lfloor>0.2 * real total_rows\<rfloor>\<bar> \<le> 2 then 1 else 0.5) \<and>
         dict_get (subscores r) ''test_size_correct'' \<noteq> 0 \<and>
         expected_test_size 100 = 20 \<and> test_start_idx 100 = 80"
proof -
  have "expected_test_size total_rows = \<lfloor>0.2 * real total_rows\<rfloor>"
    by (simp add: expected_test_size_def py_int_def)
  then have "dict_get (subscores r) ''test_size_correct'' =
           (if \<bar>int actual_test_size - \<lfloor>0.2 * real total_rows\<rfloor>\<bar> \<le> 2 then 1 else 0.5)"
    unfolding assms dict_get_score_submission
    by (simp add: size_score_def size_tolerance_def)
  moreover from this have "dict_get (subscores r) ''test_size_correct'' \<noteq> 0"
    by simp
  moreover have "expected_test_size 100 = 20"
    by (simp add: expected_test_size_div)
  moreover have "test_start_idx 100 = 80"
    by (simp add: test_start_idx_div)
  ultimately show ?thesis by blast
qed

text \<open>
  C6, witness: against 100 rows, 22 rows score 1 and 23 rows score 0.5.
\<close>

theorem test_size_correct_tolerance_witness:
  "dict_get (subscores (score_submission 100 22 [] [] [])) ''test_size_correct'' = 1 \<and>
   dict_get (subscores (score_submission 100 23 [] [] [])) ''test_size_correct'' = 0.5"
  using test_size_correct_tolerance [OF refl, of 100 22 "[]" "[]" "[]"]
    test_size_correct_tolerance [OF refl, of 100 23 "[]" "[]" "[]"]
  by simp

subsection \<open>C7: every failure becomes a result\<close>

text \<open>
  C7: \<^verbatim>\<open>grade\<close> always returns a result, and it is one of four: the result for a missing
  \<^verbatim>\<open>sol.csv\<close>, the result for missing columns, the result for an exception, or a scored
  result. A missing \<^verbatim>\<open>sol.csv\<close> gives the first and leaves the world as it is; a header that
  leaves a role unresolved gives the second, before the ground truth is read; every exception
  of the \<^verbatim>\<open>try\<close> block (an unreadable \<^verbatim>\<open>sol.csv\<close>, a ground truth that is absent, unreadable
  or without a \<^verbatim>\<open>Pos\<close> column) gives the third, with the message of the exception. Each of
  the three has score 0, no sub-score, and its own \<^verbatim>\<open>error\<close> in the details.
\<close>

theorem grade_never_raises:
  "(sol_csv w = Absent \<longrightarrow> grade transcript w = (missing_file_result, w)) \<and>
   (sol_csv w = Table leading header rows \<and>
    (fst (resolve_columns header (None, None)) = None \<or>
     snd (resolve_columns header (None, None)) = None) \<longrightarrow>
      grade transcript w = (missing_columns_result header, w)) \<and>
   (exists_file (sol_csv w) \<and> grade_try w = (out, Inl e) \<longrightarrow>
      fst (grade transcript w) = processing_error_result e) \<and>
   (sol_csv w = Unreadable msg \<longrightarrow>
      fst (grade transcript w) = processing_error_result (ReadError msg)) \<and>
   (sol_csv w = Table leading header rows \<and>
    resolve_columns header (None, None) = (Some actual_col, Some predicted_col) \<longrightarrow>
      (nba_player_stats_csv w = Absent \<longrightarrow>
         fst (grade transcript w) =
           processing_error_result (FileNotFoundError ''nba_player_stats.csv'')) \<and>
      (nba_player_stats_csv w = Unreadable msg \<longrightarrow>
         fst (grade transcript w) = processing_error_result (ReadError msg)) \<and>
      (nba_player_stats_csv w = Table nba_leading nba_header nba_rows \<and>
       column_position ''Pos'' nba_header = None \<longrightarrow>
         fst (grade transcript w) = processing_error_result (KeyError ''Pos''))) \<and>
   (fst (grade transcript w) = missing_file_result \<or>
    (\<exists>columns. fst (grade transcript w) = missing_columns_result columns) \<or>
    (\<exists>e'. fst (grade transcript w) = processing_error_result e') \<or>
    (\<exists>total_rows n expected actual predicted.
       fst (grade transcript w) = score_submission total_rows n expected actual predicted)) \<and>
   score missing_file_result = 0 \<and> subscores missing_file_result = [] \<and>
   details missing_file_result = Some [(''error'', DStr ''missing_predictions_file'')] \<and>
   score (missing_columns_result header) = 0 \<and> subscores (missing_columns_result header) = [] \<and>
   details (missing_columns_result header) =
     Some [(''error'', DStr ''missing_required_columns''), (''columns'', DStrList header)] \<and>
   score (processing_error_result e) = 0 \<and> subscores (processing_error_result e) = [] \<and>
   details (processing_error_result e) =
     Some [(''error'', DStr ''processing_error''), (''exception'', DStr (exn_str e))]"
proof -
  have c1: "sol_csv w = Absent \<longrightarrow> grade transcript w = (missing_file_result, w)"
    by (simp add: grade_missing_file)
  have c2: "sol_csv w = Table leading header rows \<and>
    (fst (resolve_columns header (None, None)) = None \<or>
     snd (resolve_columns header (None, None)) = None) \<longrightarrow>
      grade transcript w = (missing_columns_result header, w)"
    using grade_missing_columns [of w leading header rows transcript]
    by (simp add: resolve_columns_last)
  have c3: "exists_file (sol_csv w) \<and> grade_try w = (out, Inl e) \<longrightarrow>
      fst (grade transcript w) = processing_error_result e"
    using grade_raises [of w out e transcript] by simp
  have c4: "sol_csv w = Unreadable msg \<longrightarrow>
      fst (grade transcript w) = processing_error_result (ReadError msg)"
    using grade_raises [OF _ grade_try_sol_unreadable, of w msg transcript] by simp
  have c5: "sol_csv w = Table leading header rows \<and>
    resolve_columns header (None, None) = (Some actual_col, Some predicted_col) \<longrightarrow>
      (nba_player_stats_csv w = Absent \<longrightarrow>
         fst (grade transcript w) =
           processing_error_result (FileNotFoundError ''nba_player_stats.csv'')) \<and>
      (nba_player_stats_csv w = Unreadable msg \<longrightarrow>
         fst (grade transcript w) = processing_error_result (ReadError msg)) \<and>
      (nba_player_stats_csv w = Table nba_leading nba_header nba_rows \<and>
       column_position ''Pos'' nba_header = None \<longrightarrow>
         fst (grade transcript w) = processing_error_result (KeyError ''Pos''))"
  proof (intro impI conjI; elim conjE)
    assume sol: "sol_csv w = Table leading header rows"
      and cols: "resolve_columns header (None, None) = (Some actual_col, Some predicted_col)"
    have ex: "exists_file (sol_csv w)" using sol by simp
    { assume "nba_player_stats_csv w = Absent"
      then show "fst (grade transcript w) =
           processing_error_result (FileNotFoundError ''nba_player_stats.csv'')"
        using grade_raises [OF ex grade_try_nba_absent [OF sol cols]] by simp }
    { assume "nba_player_stats_csv w = Unreadable msg"
      then show "fst (grade transcript w) = processing_error_result (ReadError msg)"
        using grade_raises [OF ex grade_try_nba_unreadable [OF sol cols]] by simp }
    { assume "nba_player_stats_csv w = Table nba_leading nba_header nba_rows"
        and "column_position ''Pos'' nba_header = None"
      then show "fst (grade transcript w) = processing_error_result (KeyError ''Pos'')"
        using grade_raises [OF ex grade_try_no_pos [OF sol cols]] by simp }
  qed
  have c6: "score missing_file_result = 0 \<and> subscores missing_file_result = [] \<and>
   details missing_file_result = Some [(''error'', DStr ''missing_predictions_file'')] \<and>
   score (missing_columns_result header) = 0 \<and> subscores (missing_columns_result header) = [] \<and>
   details (missing_columns_result header) =
     Some [(''error'', DStr ''missing_required_columns''), (''columns'', DStrList header)] \<and>
   score (processing_error_result e) = 0 \<and> subscores (processing_error_result e) = [] \<and>
   details (processing_error_result e) =
     Some [(''error'', DStr ''processing_error''), (''exception'', DStr (exn_str e))]"
    by (simp add: missing_file_result_def missing_columns_result_def
        processing_error_result_def)
  show ?thesis
    using c1 c2 c3 c4 c5 c6 grade_outcomes [of transcript w] by (intro conjI) blast+
qed

text \<open>
  C7, witness: a directory without \<^verbatim>\<open>sol.csv\<close>; the header \<^verbatim>\<open>name, guess, truth\<close>; a
  ground truth without \<^verbatim>\<open>Pos\<close>, where the \<^verbatim>\<open>try\<close> block prints the start of the split and
  then raises the KeyError; a \<^verbatim>\<open>sol.csv\<close> that cannot be read; a directory without the
  ground truth; and a ground truth with a text in front of every row, where the slice by
  label raises the TypeError.
\<close>

theorem grade_never_raises_witness:
  "sol_csv example_no_file_world = Absent \<and>
   grade [] example_no_file_world = (missing_file_result, example_no_file_world) \<and>
   details (fst (grade [] example_no_file_world))
     = Some [(''error'', DStr ''missing_predictions_file'')] \<and>
   sol_csv example_unmatched_world = Table NoLeadingField [''name'', ''guess'', ''truth''] [] \<and>
   fst (resolve_columns [''name'', ''guess'', ''truth''] (None, None)) = None \<and>
   details (fst (grade [] example_unmatched_world))
     = Some [(''error'', DStr ''missing_required_columns''),
             (''columns'', DStrList [''name'', ''guess'', ''truth''])] \<and>
   exists_file (sol_csv example_no_pos_world) \<and>
   grade_try example_no_pos_world = ([''0''], Inl (KeyError ''Pos'')) \<and>
   score (fst (grade [] example_no_pos_world)) = 0 \<and>
   details (fst (grade [] example_no_pos_world))
     = Some [(''error'', DStr ''processing_error''),
             (''exception'', DStr (exn_str (KeyError ''Pos'')))] \<and>
   sol_csv example_unreadable_world = Unreadable ''No columns to parse from file'' \<and>
   details (fst (grade [] example_unreadable_world))
     = Some [(''error'', DStr ''processing_error''),
             (''exception'', DStr ''No columns to parse from file'')] \<and>
   nba_player_stats_csv example_no_truth_world = Absent \<and>
   fst (grade [] example_no_truth_world)
     = processing_error_result (FileNotFoundError ''nba_player_stats.csv'') \<and>
   exists_file (sol_csv example_text_label_world) \<and>
   grade_try example_text_label_world = ([''8''], Inl (slice_type_error 1)) \<and>
   fst (grade [] example_text_label_world) = processing_error_result (slice_type_error 1)"
proof -
  have a1: "sol_csv example_no_file_world = Absent"
    by (simp add: example_no_file_world_def)
  note t1 = grade_never_raises [where w = example_no_file_world and transcript = "[]",
      THEN conjunct1, rule_format, OF a1]
  have b1: "sol_csv example_unmatched_world = Table NoLeadingField [''name'', ''guess'', ''truth''] []"
    by (simp add: example_unmatched_world_def)
  have b2: "fst (resolve_columns [''name'', ''guess'', ''truth''] (None, None)) = None"
    by (simp add: header_eval)
  note t2 = grade_never_raises [where w = example_unmatched_world
      and leading = NoLeadingField
      and header = "[''name'', ''guess'', ''truth'']" and rows = "[]" and transcript = "[]",
      THEN conjunct2, THEN conjunct1, rule_format, OF conjI [OF b1 disjI1 [OF b2]]]
  have c1: "exists_file (sol_csv example_no_pos_world)"
    by (simp add: example_no_pos_world_def)
  have c2: "grade_try example_no_pos_world = ([''0''], Inl (KeyError ''Pos''))"
  proof -
    have "grade_try example_no_pos_world
            = ([str_int (test_start_idx (length ([] :: cell list list)))], Inl (KeyError ''Pos''))"
      by (rule grade_try_no_pos [where leading = NoLeadingField
            and header = example_sol_header and rows = "[]"
            and nba_leading = NoLeadingField and nba_header = "[''Player'', ''Team'']"])
        (simp_all add: example_no_pos_world_def resolve_example_sol_header)
    then show ?thesis
      by (simp add: test_start_idx_div str_int_def str_nat.simps digit_char_def)
  qed
  note t3 = grade_never_raises [where w = example_no_pos_world and transcript = "[]"
      and out = "[''0'']" and e = "KeyError ''Pos''",
      THEN conjunct2, THEN conjunct2, THEN conjunct1, rule_format, OF conjI [OF c1 c2]]
  have d1: "sol_csv example_unreadable_world = Unreadable ''No columns to parse from file''"
    by (simp add: example_unreadable_world_def)
  note t4 = grade_never_raises [where w = example_unreadable_world and transcript = "[]"
      and msg = "''No columns to parse from file''",
      THEN conjunct2, THEN conjunct2, THEN conjunct2, THEN conjunct1, rule_format, OF d1]
  have e1: "sol_csv example_no_truth_world = Table NoLeadingField example_sol_header []"
    and e2: "nba_player_stats_csv example_no_truth_world = Absent"
    by (simp_all add: example_no_truth_world_def)
  note t5 = grade_never_raises [where w = example_no_truth_world and transcript = "[]"
      and leading = NoLeadingField and header = example_sol_header and rows = "[]"
      and actual_col = "''actual_position''" and predicted_col = "''predicted_position''",
      THEN conjunct2, THEN conjunct2, THEN conjunct2, THEN conjunct2, THEN conjunct1,
      rule_format, OF conjI [OF e1 resolve_example_sol_header], THEN conjunct1,
      rule_format, OF e2]
  have f1: "exists_file (sol_csv example_text_label_world)"
    by (simp add: example_text_label_world_def)
  note f2 = grade_try_example_text_label
  note t6 = grade_never_raises [where w = example_text_label_world and transcript = "[]"
      and out = "[''8'']" and e = "slice_type_error 1",
      THEN conjunct2, THEN conjunct2, THEN conjunct1, rule_format, OF conjI [OF f1 f2]]
  show ?thesis
    using a1 t1 b1 b2 t2 c1 c2 t3 d1 t4 e2 t5 f1 f2 t6
    by (simp add: missing_file_result_def missing_columns_result_def
        processing_error_result_def)
qed

subsection \<open>C8: the feedback\<close>

text \<open>
  C8 as worded fails: the submission with every label right has all three sub-scores at 1,
  and its feedback is the two accuracy notes, not a success message.
\<close>

theorem perfect_submission_gets_accuracy_notes:
  "subscores (fst (grade [] example_perfect_world)) =
     [(''test_size_correct'', 1), (''correct_test_split'', 1),
      (''classification_accuracy'', 1)] \<and>
   feedback (fst (grade [] example_perfect_world)) =
     Some ''Classification accuracy: 1.000 | Classification error: 0.000''"
  unfolding grade_example_perfect by (simp add: score_eval)

text \<open>
  C8, amended: the feedback of a scored result is the list, joined by \<^verbatim>\<open> | \<close>, of the note on
  the size when \<^verbatim>\<open>test_size_correct\<close> is below 1, the note on the split when
  \<^verbatim>\<open>correct_test_split\<close> is below 1, and then in every case the notes on the accuracy: the
  accuracy and the error with three decimals when the accuracy was computed, whatever its
  value, and the note on mismatched lengths otherwise.
\<close>

theorem feedback_always_reports_accuracy:
  assumes "r = score_submission total_rows actual_test_size expected actual_values
                 predicted_values"
  shows "feedback r =
           Some (join '' | ''
             ((if dict_get (subscores r) ''test_size_correct'' < 1
               then [''Test set size: '' @ str_nat actual_test_size @ '', expected: ~'' @
                     str_int \<lfloor>0.2 * real total_rows\<rfloor>]
               else []) @
              (if dict_get (subscores r) ''correct_test_split'' < 1
               then [''The 'actual' values don't match the expected test set (last 20% of rows)'']
               else []) @
              (if length actual_values = length predicted_values \<and> 0 < length actual_values
               then [''Classification accuracy: '' @
                       format_3f (dict_get (subscores r) ''classification_accuracy''),
                     ''Classification error: '' @
                       format_3f (1 - dict_get (subscores r) ''classification_accuracy'')]
               else [''Could not calculate accuracy due to mismatched array lengths''])))"
proof -
  have size: "size_feedback actual_test_size total_rows =
      (if size_score actual_test_size total_rows < 1
       then [''Test set size: '' @ str_nat actual_test_size @ '', expected: ~'' @
             str_int \<lfloor>0.2 * real total_rows\<rfloor>]
       else [])"
    by (simp add: size_feedback_def expected_test_size_def py_int_def)
  have split: "split_feedback actual_values expected =
      (if actual_match_score actual_values expected < 1
       then [''The 'actual' values don't match the expected test set (last 20% of rows)'']
       else [])"
    using actual_match_score_values [of actual_values expected]
    by (auto simp: split_feedback_def)
  have acc: "accuracy_feedback actual_values predicted_values =
      (if length actual_values = length predicted_values \<and> 0 < length actual_values
       then [''Classification accuracy: '' @
               format_3f (accuracy_score actual_values predicted_values),
             ''Classification error: '' @
               format_3f (1 - accuracy_score actual_values predicted_values)]
       else [''Could not calculate accuracy due to mismatched array lengths''])"
    by (simp add: accuracy_feedback_def accuracy_score_def accuracy_computed_def)
  show ?thesis
    unfolding assms feedback_score_submission dict_get_score_submission size split acc ..
qed

text \<open>
  C8, witness: one of two predictions right on the right split gives the two accuracy
  notes alone; seven rows, a wrong label and no predictions give all three kinds of note.
\<close>

theorem feedback_always_reports_accuracy_witness:
  "length [Label ''PF'', Label ''C''] = length [Label ''PF'', Label ''SG''] \<and>
   feedback (score_submission 10 2 [Label ''PF'', Label ''C''] [Label ''PF'', Label ''C'']
      [Label ''PF'', Label ''SG'']) =
     Some ''Classification accuracy: 0.500 | Classification error: 0.500'' \<and>
   feedback (score_submission 10 7 [Label ''PF'', Label ''C''] [Label ''PF'', Label ''PG'']
      []) =
     Some ''Test set size: 7, expected: ~2 | The 'actual' values don't match the expected test set (last 20% of rows) | Could not calculate accuracy due to mismatched array lengths''"
  using feedback_always_reports_accuracy [OF refl, of 10 2 "[Label ''PF'', Label ''C'']"
      "[Label ''PF'', Label ''C'']" "[Label ''PF'', Label ''SG'']"]
    feedback_always_reports_accuracy [OF refl, of 10 7 "[Label ''PF'', Label ''C'']"
      "[Label ''PF'', Label ''PG'']" "[]"]
  by (simp add: score_eval dict_get_score_submission)

subsection \<open>C9: grading twice\<close>

text \<open>
  C9: the result of \<^verbatim>\<open>grade\<close> depends on the content of the two files only, not on the
  transcript and not on what was printed before; \<^verbatim>\<open>grade\<close> leaves both files as they are;
  hence grading again, after a first run, returns the same result.
\<close>

theorem grade_deterministic:
  "(sol_csv w1 = sol_csv w2 \<and> nba_player_stats_csv w1 = nba_player_stats_csv w2 \<longrightarrow>
      fst (grade t1 w1) = fst (grade t2 w2)) \<and>
   sol_csv (snd (grade t1 w1)) = sol_csv w1 \<and>
   nba_player_stats_csv (snd (grade t1 w1)) = nba_player_stats_csv w1 \<and>
   fst (grade t2 (snd (grade t1 w1))) = fst (grade t1 w1)"
proof -
  note same = grade_files_unchanged [of t1 w1]
  have again: "fst (grade t2 (snd (grade t1 w1))) = fst (grade t1 w1)"
    by (rule grade_result_files) (simp_all only: same)
  have any: "sol_csv w1 = sol_csv w2 \<and> nba_player_stats_csv w1 = nba_player_stats_csv w2 \<longrightarrow>
      fst (grade t1 w1) = fst (grade t2 w2)"
    by (intro impI, elim conjE) (rule grade_result_files)
  from any same again show ?thesis by (intro conjI) (erule conjunct1 conjunct2 | assumption)+
qed

text \<open>
  C9, witness: the submission with one of two predictions right is graded twice, with
  different transcripts; both runs return the same result, with score 0.75.
\<close>

theorem grade_deterministic_witness:
  "sol_csv (snd (grade ''first run'' example_half_world)) = sol_csv example_half_world \<and>
   fst (grade ''second run'' (snd (grade ''first run'' example_half_world)))
     = fst (grade ''first run'' example_half_world) \<and>
   score (fst (grade ''second run'' (snd (grade ''first run'' example_half_world)))) = 0.75"
proof -
  note det = grade_deterministic [of example_half_world example_half_world
      "''first run''" "''second run''"]
  have files: "sol_csv (snd (grade ''first run'' example_half_world))
                 = sol_csv example_half_world"
    using det by (elim conjE)
  have again: "fst (grade ''second run'' (snd (grade ''first run'' example_half_world)))
     = fst (grade ''first run'' example_half_world)"
    using det by (elim conjE)
  have "score (fst (grade ''first run'' example_half_world)) = 0.75"
    unfolding grade_example_half by (simp add: score_eval)
  then have "score (fst (grade ''second run'' (snd (grade ''first run'' example_half_world))))
      = 0.75"
    by (simp only: again)
  with files again show ?thesis by (intro conjI)
qed

subsection \<open>C10: the override changes nothing\<close>

text \<open>
  C10: \<^verbatim>\<open>test_size_correct\<close> is 1 or 0.5, \<^verbatim>\<open>correct_test_split\<close> is 1 or 0, and the accuracy
  lies between 0 and 1. So when every sub-score is at least 0.95 the first two are 1, the
  weighted sum is \<open>0.5 + 0.5 * accuracy\<close>, which is at least the accuracy, and the score of
  a scored result is always the plain weighted sum.
\<close>

theorem bonus_override_is_noop:
  assumes "r = score_submission total_rows actual_test_size expected actual_values
                 predicted_values"
  shows "score r = plain_weighted_sum r \<and>
         (dict_get (subscores r) ''test_size_correct'' = 1 \<or>
          dict_get (subscores r) ''test_size_correct'' = 0.5) \<and>
         (dict_get (subscores r) ''correct_test_split'' = 1 \<or>
          dict_get (subscores r) ''correct_test_split'' = 0) \<and>
         0 \<le> dict_get (subscores r) ''classification_accuracy'' \<and>
         dict_get (subscores r) ''classification_accuracy'' \<le> 1 \<and>
         (list_all (\<lambda>s. 0.95 \<le> s) (map snd (subscores r)) \<longrightarrow>
            dict_get (subscores r) ''test_size_correct'' = 1 \<and>
            dict_get (subscores r) ''correct_test_split'' = 1 \<and>
            plain_weighted_sum r =
              0.5 + 0.5 * dict_get (subscores r) ''classification_accuracy'' \<and>
            dict_get (subscores r) ''classification_accuracy'' \<le> plain_weighted_sum r)"
proof -
  let ?s1 = "size_score actual_test_size total_rows"
  let ?s2 = "actual_match_score actual_values expected"
  let ?s3 = "accuracy_score actual_values predicted_values"
  have b: "0 \<le> ?s3 \<and> ?s3 \<le> 1" by (rule accuracy_score_bounds)
  have high: "?s1 = 1 \<and> ?s2 = 1 \<and> 0.2 * ?s1 + 0.3 * ?s2 + 0.5 * ?s3 = 0.5 + 0.5 * ?s3 \<and>
              ?s3 \<le> 0.2 * ?s1 + 0.3 * ?s2 + 0.5 * ?s3"
    if "0.95 \<le> ?s1" "0.95 \<le> ?s2"
    using high_size_score [OF that(1)] high_actual_match_score [OF that(2)] b by simp
  have "score r = plain_weighted_sum r"
  proof (cases "0.95 \<le> ?s1 \<and> 0.95 \<le> ?s2 \<and> 0.95 \<le> ?s3")
    case True
    then have "?s3 \<le> 0.2 * ?s1 + 0.3 * ?s2 + 0.5 * ?s3" using high by blast
    then have "max (0.2 * ?s1 + 0.3 * ?s2 + 0.5 * ?s3) ?s3 = 0.2 * ?s1 + 0.3 * ?s2 + 0.5 * ?s3"
      by (rule max_absorb1)
    then show ?thesis
      unfolding assms plain_weighted_sum_score_submission score_score_submission Let_def
      using True by simp
  next
    case False
    then show ?thesis
      unfolding assms plain_weighted_sum_score_submission score_score_submission Let_def
      by auto
  qed
  moreover have "list_all (\<lambda>s. 0.95 \<le> s) (map snd (subscores r)) \<longrightarrow>
            dict_get (subscores r) ''test_size_correct'' = 1 \<and>
            dict_get (subscores r) ''correct_test_split'' = 1 \<and>
            plain_weighted_sum r =
              0.5 + 0.5 * dict_get (subscores r) ''classification_accuracy'' \<and>
            dict_get (subscores r) ''classification_accuracy'' \<le> plain_weighted_sum r"
    unfolding assms all_high_iff plain_weighted_sum_score_submission
      dict_get_score_submission
    using high by blast
  moreover have "dict_get (subscores r) ''test_size_correct'' = 1 \<or>
          dict_get (subscores r) ''test_size_correct'' = 0.5"
    unfolding assms dict_get_score_submission by (rule size_score_values)
  moreover have "dict_get (subscores r) ''correct_test_split'' = 1 \<or>
          dict_get (subscores r) ''correct_test_split'' = 0"
    unfolding assms dict_get_score_submission by (rule actual_match_score_values)
  moreover have "0 \<le> dict_get (subscores r) ''classification_accuracy'' \<and>
         dict_get (subscores r) ''classification_accuracy'' \<le> 1"
    unfolding assms dict_get_score_submission by (rule b)
  ultimately show ?thesis by blast
qed

text \<open>
  C10, witness: for the submission with every label right all three sub-scores are 1, and
  the score and the weighted sum are both 1.
\<close>

theorem bonus_override_is_noop_witness:
  "list_all (\<lambda>s. 0.95 \<le> s) (map snd (subscores (score_submission 10 2
      [Label ''PF'', Label ''C''] [Label ''PF'', Label ''C''] [Label ''PF'', Label ''C'']))) \<and>
   score (score_submission 10 2 [Label ''PF'', Label ''C'']
      [Label ''PF'', Label ''C''] [Label ''PF'', Label ''C'']) = 1 \<and>
   plain_weighted_sum (score_submission 10 2 [Label ''PF'', Label ''C'']
      [Label ''PF'', Label ''C''] [Label ''PF'', Label ''C'']) = 1"
  using bonus_override_is_noop [OF refl, of 10 2 "[Label ''PF'', Label ''C'']"
      "[Label ''PF'', Label ''C'']" "[Label ''PF'', Label ''C'']"]
  by (simp add: score_eval)

end
